theory Spec2Isabelle
  imports Complex_Main "HOL-Library.Word"
begin

section \<open>JavaScript values used by the program\<close>

text \<open>
  The program computes with JavaScript numbers. They are modelled as real numbers
  (the rounding of IEEE doubles and of \<open>Float32Array\<close> cells is left out), extended
  by \<open>NaN\<close> where the program can produce it: arithmetic on \<open>undefined\<close>, which
  is what a typed array yields when it is read outside its range.
\<close>

datatype number = Num real | NaN

fun jsAdd :: "number \<Rightarrow> number \<Rightarrow> number" where
  "jsAdd (Num a) (Num b) = Num (a + b)"
| "jsAdd _ _ = NaN"

fun jsMul :: "number \<Rightarrow> number \<Rightarrow> number" where
  "jsMul (Num a) (Num b) = Num (a * b)"
| "jsMul _ _ = NaN"

text \<open>\<open>ToNumber\<close> of the result of an array read: \<open>undefined\<close> becomes \<open>NaN\<close>.\<close>

fun toNumber :: "real option \<Rightarrow> number" where
  "toNumber None = NaN"
| "toNumber (Some v) = Num v"

text \<open>
  \<open>Math.round\<close>: the nearest integer, halves rounded towards plus infinity;
  \<open>None\<close> stands for \<open>NaN\<close>.
\<close>

fun mathRound :: "number \<Rightarrow> int option" where
  "mathRound (Num v) = Some \<lfloor>v + 1 / 2\<rfloor>"
| "mathRound NaN = None"

text \<open>
  Typed arrays (\<open>Float32Array\<close>, \<open>Uint32Array\<close>) are lists. A read outside the range
  (or at the index \<open>NaN\<close>, written \<open>None\<close>) yields \<open>undefined\<close> (\<open>None\<close>), a write
  there is dropped without an error.
\<close>

definition typedGet :: "'a list \<Rightarrow> int option \<Rightarrow> 'a option" where
  "typedGet a i =
     (case i of
        None \<Rightarrow> None
      | Some k \<Rightarrow> if 0 \<le> k \<and> k < int (length a) then Some (a ! nat k) else None)"

definition typedSet :: "'a list \<Rightarrow> int option \<Rightarrow> 'a \<Rightarrow> 'a list" where
  "typedSet a i v =
     (case i of
        None \<Rightarrow> a
      | Some k \<Rightarrow> if 0 \<le> k \<and> k < int (length a) then a[nat k := v] else a)"

text \<open>
  The remainder \<open>a % b\<close> on a non-negative index and an array length: \<open>NaN\<close>
  (\<open>None\<close>) when the length is \<open>0\<close> or the index is already \<open>NaN\<close>.
\<close>

fun jsModLength :: "nat option \<Rightarrow> nat \<Rightarrow> nat option" where
  "jsModLength None _ = None"
| "jsModLength (Some a) b = (if b = 0 then None else Some (a mod b))"

fun jsSucc :: "nat option \<Rightarrow> nat option" where
  "jsSucc None = None"
| "jsSucc (Some a) = Some (a + 1)"

text \<open>An ordinary array read \<open>colors[i]\<close>: \<open>undefined\<close> outside the range.\<close>

fun arrayGet :: "'a list \<Rightarrow> nat option \<Rightarrow> 'a option" where
  "arrayGet a None = None"
| "arrayGet a (Some i) = (if i < length a then Some (a ! i) else None)"


section \<open>The message from the worker to the application\<close>

text \<open>
  \<open>self.postMessage({vibrationIntensity, vibrationValues, gradients})\<close>: the two
  buffers are transferred, or both are \<open>null\<close> (\<open>None\<close>).
\<close>

record fieldMessage =
  msg_vibrationIntensity :: real
  msg_vibrationValues :: "real list option"
  msg_gradients :: "real list option"


section \<open>ChladniApp: the consumer of the fields\<close>

text \<open>
  The fields of class \<open>ChladniApp\<close> that the frame loop and the message handler use.
  Pixels and colours are the values a \<open>Uint32Array\<close> cell holds. The palette,
  the non-resonant colour and the background colour come from \<open>Utils\<close>, which is
  outside the sources: they are whatever the record holds.
  \<open>app_colorIndex = None\<close> is \<open>NaN\<close>, \<open>app_selectedColor = None\<close> is \<open>undefined\<close>.
\<close>

record chladniApp =
  app_buffer :: "32 word list"
  app_vibrationValues :: "real list option"
  app_gradients :: "real list option"
  app_vibrationIntensity :: real
  app_halfVibrationIntensity :: real
  app_debugVibration :: bool
  app_isRunning :: bool
  app_width :: nat
  app_height :: nat
  app_particles :: "number list"
  app_nonResonantColor :: "32 word"
  app_colorIndex :: "nat option"
  app_colors :: "32 word list"
  app_selectedColor :: "32 word option"
  app_backgroundColor :: "32 word"
  app_fpsCount :: nat

text \<open>\<open>ChladniApp.onMessageFromWorker\<close>, statement by statement.\<close>

definition onMessageFromWorker :: "fieldMessage \<Rightarrow> chladniApp \<Rightarrow> chladniApp" where
  "onMessageFromWorker message a =
     (let a1 = a\<lparr>app_vibrationIntensity := msg_vibrationIntensity message\<rparr>;
          a2 = a1\<lparr>app_halfVibrationIntensity := app_vibrationIntensity a1 / 2\<rparr>;
          a3 = a2\<lparr>app_vibrationValues := msg_vibrationValues message\<rparr>;
          a4 = a3\<lparr>app_gradients := msg_gradients message\<rparr>
      in if app_gradients a4 \<noteq> None
         then
           (let a5 = a4\<lparr>app_colorIndex :=
                         jsModLength (jsSucc (app_colorIndex a4)) (length (app_colors a4))\<rparr>
            in a5\<lparr>app_selectedColor := arrayGet (app_colors a5) (app_colorIndex a5)\<rparr>)
         else a4)"

text \<open>Messages arrive in send order and are handled one after the other.\<close>

definition deliverAll :: "fieldMessage list \<Rightarrow> chladniApp \<Rightarrow> chladniApp" where
  "deliverAll ms a = fold onMessageFromWorker ms a"

text \<open>The number of messages of a delivery sequence that carry a gradient buffer.\<close>

definition fieldDeliveries :: "fieldMessage list \<Rightarrow> nat" where
  "fieldDeliveries ms = length (filter (\<lambda>m. msg_gradients m \<noteq> None) ms)"

text \<open>
  The values the constructor and its call of \<open>resize\<close> give to the fields, for a
  canvas of \<open>w\<close> by \<open>h\<close> cells (\<open>resize\<close> rounds both up to integers): a framebuffer
  of \<open>w * h\<close> cells, no field buffers, the default intensity \<open>2\<close>, the first palette
  colour selected. The random particle positions and the colours read through \<open>Utils\<close>
  are parameters.
\<close>

definition DEFAULT_RANDOM_VIBRATION_INTENSITY :: real where
  "DEFAULT_RANDOM_VIBRATION_INTENSITY = 2"

definition newChladniApp ::
  "nat \<Rightarrow> nat \<Rightarrow> number list \<Rightarrow> 32 word list \<Rightarrow> 32 word \<Rightarrow> 32 word \<Rightarrow> chladniApp" where
  "newChladniApp w h ps palette nonResonant background =
     \<lparr>app_buffer = replicate (w * h) 0,
      app_vibrationValues = None,
      app_gradients = None,
      app_vibrationIntensity = DEFAULT_RANDOM_VIBRATION_INTENSITY,
      app_halfVibrationIntensity = DEFAULT_RANDOM_VIBRATION_INTENSITY / 2,
      app_debugVibration = False,
      app_isRunning = True,
      app_width = w,
      app_height = h,
      app_particles = ps,
      app_nonResonantColor = nonResonant,
      app_colorIndex = Some 0,
      app_colors = palette,
      app_selectedColor = arrayGet palette (Some 0),
      app_backgroundColor = background,
      app_fpsCount = 0\<rparr>"


subsection \<open>Math.random\<close>

text \<open>
  \<open>Math.random()\<close> returns a number in \<open>[0, 1)\<close>; the type of its results carries
  that range. A random source is the sequence of the results of the successive calls;
  the functions below thread the number of calls made so far.
\<close>

typedef randomNumber = "{r :: real. 0 \<le> r \<and> r < 1}"
  by (rule exI [of _ 0]) simp

setup_lifting type_definition_randomNumber

text \<open>The draw with a given value, for concrete random sources.\<close>

lift_definition randomOf :: "real \<Rightarrow> randomNumber" is
  "\<lambda>r. if 0 \<le> r \<and> r < 1 then r else 0"
  by simp

type_synonym randomSource = "nat \<Rightarrow> randomNumber"

definition mathRandom :: "randomSource \<Rightarrow> nat \<Rightarrow> real \<times> nat" where
  "mathRandom rnd k = (Rep_randomNumber (rnd k), Suc k)"


subsection \<open>The frame loop\<close>

definition MAX_GRADIENT_INTENSITY :: real where
  "MAX_GRADIENT_INTENSITY = 4 / 10"

text \<open>
  The index \<open>Math.round(y) * this.width + Math.round(x)\<close> of a position in a
  row-major grid; \<open>None\<close> is \<open>NaN\<close>. Nothing compares \<open>x\<close> or \<open>y\<close> with the bounds
  of the grid.
\<close>

definition linearIndex :: "nat \<Rightarrow> number \<Rightarrow> number \<Rightarrow> int option" where
  "linearIndex w x y =
     (case (mathRound y, mathRound x) of
        (Some ry, Some rx) \<Rightarrow> Some (ry * int w + rx)
      | _ \<Rightarrow> None)"

text \<open>\<open>ChladniApp.obtainGradientAt\<close>, called only when \<open>this.gradients\<close> is set.\<close>

definition obtainGradientAt ::
  "real list \<Rightarrow> nat \<Rightarrow> number \<Rightarrow> number \<Rightarrow> real option \<times> real option" where
  "obtainGradientAt g w x y =
     (let index = map_option (\<lambda>c. c * 2) (linearIndex w x y)
      in (typedGet g index, typedGet g (map_option (\<lambda>c. c + 1) index)))"

text \<open>The jitter \<open>Math.random() * this.vibrationIntensity - this.halfVibrationIntensity\<close>.\<close>

definition jitter :: "real \<Rightarrow> real \<Rightarrow> real \<Rightarrow> real" where
  "jitter r vibrationIntensity halfVibrationIntensity =
     r * vibrationIntensity - halfVibrationIntensity"

text \<open>
  The new position of one particle: the pull of the gradient field when one is held,
  then the jitter on each axis (lines 195 to 203 of the loop body).
\<close>

definition moveParticle ::
  "real list option \<Rightarrow> nat \<Rightarrow> real \<Rightarrow> real \<Rightarrow> number \<Rightarrow> number \<Rightarrow> real \<Rightarrow> real
     \<Rightarrow> number \<times> number" where
  "moveParticle grads w vI half x y r1 r2 =
     (let (x1, y1) =
            (case grads of
               None \<Rightarrow> (x, y)
             | Some g \<Rightarrow>
                 (let (gradX, gradY) = obtainGradientAt g w x y
                  in (jsAdd x (jsMul (Num MAX_GRADIENT_INTENSITY) (toNumber gradX)),
                      jsAdd y (jsMul (Num MAX_GRADIENT_INTENSITY) (toNumber gradY)))))
      in (jsAdd x1 (Num (jitter r1 vI half)), jsAdd y1 (Num (jitter r2 vI half))))"

text \<open>A read of the particle array; \<open>undefined\<close> counts as \<open>NaN\<close> in the arithmetic.\<close>

definition particleAt :: "number list \<Rightarrow> nat \<Rightarrow> number" where
  "particleAt ps i = (case typedGet ps (Some (int i)) of None \<Rightarrow> NaN | Some v \<Rightarrow> v)"

text \<open>A colour stored into a \<open>Uint32Array\<close> cell: \<open>undefined\<close> is stored as \<open>0\<close>.\<close>

fun toUint32 :: "32 word option \<Rightarrow> 32 word" where
  "toUint32 None = 0"
| "toUint32 (Some c) = c"

text \<open>
  One pass of the body of the particle loop, for the particle stored at \<open>i\<close> and
  \<open>i + 1\<close>; \<open>k\<close> counts the calls of \<open>Math.random\<close>.
\<close>

definition updateParticle ::
  "randomSource \<Rightarrow> 32 word \<Rightarrow> nat \<Rightarrow> chladniApp \<times> nat \<Rightarrow> chladniApp \<times> nat" where
  "updateParticle rnd color i s =
     (let a = fst s; k = snd s;
          x = particleAt (app_particles a) i;
          y = particleAt (app_particles a) (i + 1);
          (r1, k1) = mathRandom rnd k;
          (r2, k2) = mathRandom rnd k1;
          (x', y') = moveParticle (app_gradients a) (app_width a)
                       (app_vibrationIntensity a) (app_halfVibrationIntensity a) x y r1 r2;
          ps1 = typedSet (app_particles a) (Some (int i)) x';
          ps2 = typedSet ps1 (Some (int i + 1)) y';
          buf = typedSet (app_buffer a) (linearIndex (app_width a) x' y') color
      in (a\<lparr>app_particles := ps2, app_buffer := buf\<rparr>, k2))"

text \<open>
  The values of \<open>i\<close> in \<open>for (let i = 0; i < n; i += 2)\<close>, where \<open>n\<close> is the
  length of the particle array, which no write changes.
\<close>

definition particleIndices :: "nat \<Rightarrow> nat list" where
  "particleIndices n = map (\<lambda>j. 2 * j) [0..<(n + 1) div 2]"

text \<open>
  The pixel fill before the particles are drawn: the grey levels of the vibration
  field in debug mode, the background colour otherwise. \<open>Utils.rgbToVal\<close> is outside
  the sources and is a parameter.
\<close>

definition fillBuffer :: "(real \<Rightarrow> real \<Rightarrow> real \<Rightarrow> 32 word) \<Rightarrow> chladniApp \<Rightarrow> 32 word list" where
  "fillBuffer rgbToVal a =
     (case (if app_debugVibration a then app_vibrationValues a else None) of
        Some vib \<Rightarrow>
          fold (\<lambda>i b. let intensity = vib ! i * 64
                      in typedSet b (Some (int i)) (rgbToVal intensity intensity intensity))
               [0..<length vib] (app_buffer a)
      | None \<Rightarrow> replicate (length (app_buffer a)) (app_backgroundColor a))"

definition particleColor :: "chladniApp \<Rightarrow> 32 word" where
  "particleColor a =
     toUint32 (if app_gradients a \<noteq> None then app_selectedColor a
               else Some (app_nonResonantColor a))"

text \<open>
  \<open>ChladniApp.update\<close>: one frame. Presenting the image and requesting the next frame
  have no effect on the state modelled here.
\<close>

definition update ::
  "(real \<Rightarrow> real \<Rightarrow> real \<Rightarrow> 32 word) \<Rightarrow> randomSource \<Rightarrow> chladniApp \<times> nat \<Rightarrow> chladniApp \<times> nat" where
  "update rgbToVal rnd s =
     (let a = fst s; k = snd s
      in if \<not> app_isRunning a then (a\<lparr>app_fpsCount := app_fpsCount a + 1\<rparr>, k)
         else
           (let a1 = a\<lparr>app_buffer := fillBuffer rgbToVal a\<rparr>;
                color = particleColor a1;
                (a2, k2) = fold (updateParticle rnd color)
                             (particleIndices (length (app_particles a1))) (a1, k)
            in (a2\<lparr>app_fpsCount := app_fpsCount a2 + 1\<rparr>, k2)))"


subsection \<open>Notions used to state the properties of a frame\<close>

text \<open>
  Whether a position, rounded as the frame loop rounds it, is a cell of the
  \<open>w\<close> by \<open>h\<close> grid.
\<close>

definition inGrid :: "nat \<Rightarrow> nat \<Rightarrow> number \<Rightarrow> number \<Rightarrow> bool" where
  "inGrid w h x y =
     (case (mathRound x, mathRound y) of
        (Some rx, Some ry) \<Rightarrow> 0 \<le> rx \<and> rx < int w \<and> 0 \<le> ry \<and> ry < int h
      | _ \<Rightarrow> False)"

text \<open>
  The position the frame that starts in state \<open>a\<close>, after \<open>k\<close> calls of
  \<open>Math.random\<close>, gives to the particle number \<open>m\<close> (stored at \<open>2 * m\<close> and
  \<open>2 * m + 1\<close>), and the invariant of the particle loop after \<open>m\<close> particles.
\<close>

definition movedParticle :: "randomSource \<Rightarrow> chladniApp \<Rightarrow> nat \<Rightarrow> nat \<Rightarrow> number \<times> number" where
  "movedParticle rnd a k m =
     moveParticle (app_gradients a) (app_width a)
       (app_vibrationIntensity a) (app_halfVibrationIntensity a)
       (particleAt (app_particles a) (2 * m)) (particleAt (app_particles a) (2 * m + 1))
       (Rep_randomNumber (rnd (k + 2 * m))) (Rep_randomNumber (rnd (k + 2 * m + 1)))"

definition particleLoopInv ::
  "randomSource \<Rightarrow> 32 word \<Rightarrow> chladniApp \<Rightarrow> nat \<Rightarrow> nat \<Rightarrow> chladniApp \<times> nat \<Rightarrow> bool" where
  "particleLoopInv rnd color a k m s \<longleftrightarrow>
     snd s = k + 2 * m \<and>
     fst s = a\<lparr>app_particles := app_particles (fst s), app_buffer := app_buffer (fst s)\<rparr> \<and>
     length (app_particles (fst s)) = length (app_particles a) \<and>
     length (app_buffer (fst s)) = length (app_buffer a) \<and>
     (\<forall>j < length (app_particles a).
        app_particles (fst s) ! j =
          (if j < 2 * m
           then (if even j then fst (movedParticle rnd a k (j div 2))
                 else snd (movedParticle rnd a k (j div 2)))
           else app_particles a ! j)) \<and>
     (\<forall>c < length (app_buffer a).
        app_buffer (fst s) ! c =
          (if \<exists>m' < m. linearIndex (app_width a) (fst (movedParticle rnd a k m'))
                           (snd (movedParticle rnd a k m')) = Some (int c)
           then color else app_buffer a ! c))"


text \<open>
  An example state: a \<open>5\<close> by \<open>5\<close> grid with one particle at \<open>(-2, 2)\<close>, left of the
  grid, after the delivery of a field whose only non-zero gradient is \<open>(1, 0)\<close> at the
  interior cell \<open>(3, 1)\<close>.
\<close>

definition strayParticleApp :: chladniApp where
  "strayParticleApp =
     onMessageFromWorker
       \<lparr>msg_vibrationIntensity = 3,
        msg_vibrationValues = Some (replicate 25 (1 / 2)),
        msg_gradients = Some ((replicate 50 0)[16 := 1])\<rparr>
       (newChladniApp 5 5 [Num (- 2), Num 2] [10, 20] 7 0)"

text \<open>
  The bound \<open>|newPos - oldPos| \<le> intensity\<close> on one axis, as a comparison of
  JavaScript numbers: it is false when either position is \<open>NaN\<close>.
\<close>

definition displacementWithin :: "number \<Rightarrow> number \<Rightarrow> real \<Rightarrow> bool" where
  "displacementWithin oldPos newPos intensity =
     (case (oldPos, newPos) of
        (Num p, Num q) \<Rightarrow> \<bar>q - p\<bar> \<le> intensity
      | _ \<Rightarrow> False)"

text \<open>
  A second example: a \<open>5\<close> by \<open>5\<close> grid with one particle at \<open>(2, 1 / 5)\<close>, inside
  the grid, after the delivery of a field whose gradients are all \<open>(0, 0)\<close>; a source
  of random numbers whose second draw is \<open>1 / 10\<close> and whose other draws are \<open>1 / 2\<close>;
  and the state after two frames with that source, from the first draw on, followed
  by the delivery of a rest round message.
\<close>

definition driftStartApp :: chladniApp where
  "driftStartApp =
     onMessageFromWorker
       \<lparr>msg_vibrationIntensity = 3,
        msg_vibrationValues = Some (replicate 25 0),
        msg_gradients = Some (replicate 50 0)\<rparr>
       (newChladniApp 5 5 [Num 2, Num (1 / 5)] [10, 20] 7 0)"

definition driftSource :: randomSource where
  "driftSource = (\<lambda>i. if i = 1 then randomOf (1 / 10) else randomOf (1 / 2))"

definition driftedApp :: chladniApp where
  "driftedApp =
     onMessageFromWorker
       \<lparr>msg_vibrationIntensity = 9 / 2, msg_vibrationValues = None, msg_gradients = None\<rparr>
       (fst (update (\<lambda>r g b. 0) driftSource
               (update (\<lambda>r g b. 0) driftSource (driftStartApp, 0))))"

section \<open>GradientWorker: the producer of the fields\<close>

record chladniParams =
  cp_m :: real
  cp_n :: real
  cp_l :: real

definition MODERATE_RANDOM_VIBRATION_INTENSITY :: real where
  "MODERATE_RANDOM_VIBRATION_INTENSITY = 3"

definition AGGRESSIVE_RANDOM_VIBRATION_INTENSITY :: real where
  "AGGRESSIVE_RANDOM_VIBRATION_INTENSITY = MODERATE_RANDOM_VIBRATION_INTENSITY * (3 / 2)"

definition MIN_NODE_THRESHOLD :: real where
  "MIN_NODE_THRESHOLD = 1 / 100"

subsection \<open>The vibration field\<close>

text \<open>
  The body of the two loops of \<open>computeVibrationValues\<close>: the value stored for the
  cell \<open>(x, y)\<close>. \<open>Math.sign\<close> is \<open>sgn\<close>, and \<open>cos\<close> is the cosine of the reals.
\<close>

definition vibrationValue :: "real \<Rightarrow> real \<Rightarrow> real \<Rightarrow> real \<Rightarrow> real \<Rightarrow> nat \<Rightarrow> nat \<Rightarrow> real" where
  "vibrationValue M N L TX TY x y =
     (let R = 0;
          scaledX = real x * L + TX;
          scaledY = real y * L + TY;
          MX = M * scaledX + R;
          NX = N * scaledX + R;
          MY = M * scaledY + R;
          NY = N * scaledY + R;
          v0 = cos NX * cos MY - cos MX * cos NY;
          v1 = v0 / 2;
          v2 = v1 * sgn v1
      in v2)"

text \<open>
  \<open>computeVibrationValues\<close> for the dimensions \<open>w\<close> and \<open>h\<close> the worker holds: two
  draws give the phase offsets (both scaled by the height), a fresh zero-filled array of
  \<open>w * h\<close> cells is filled row by row. The result is the array and the count of calls of
  \<open>Math.random\<close>.
\<close>

definition computeVibrationValues ::
  "chladniParams \<Rightarrow> randomSource \<Rightarrow> nat \<Rightarrow> nat \<Rightarrow> nat \<Rightarrow> real list \<times> nat" where
  "computeVibrationValues chladniParams rnd k w h =
     (let M = cp_m chladniParams;
          N = cp_n chladniParams;
          L = cp_l chladniParams;
          (r1, k1) = mathRandom rnd k;
          TX = r1 * real h;
          (r2, k2) = mathRandom rnd k1;
          TY = r2 * real h
      in (fold (\<lambda>y. fold (\<lambda>x a. typedSet a (Some (int (y * w + x)))
                                    (vibrationValue M N L TX TY x y))
                           [0..<w])
               [0..<h] (replicate (w * h) 0),
          k2))"

subsection \<open>The gradient field\<close>

text \<open>
  \<open>myIndex << 1\<close>: the shift works on the 32-bit two's complement value of its
  operand and yields a signed 32-bit integer.
\<close>

definition shiftLeft1 :: "int \<Rightarrow> int" where
  "shiftLeft1 i = sint (push_bit 1 (word_of_int i :: 32 word))"

text \<open>
  \<open>minVibrationSoFar\<close> is \<open>Number.POSITIVE_INFINITY\<close> or a value of the field. A
  comparison with \<open>undefined\<close> (a read outside the array) is false.
\<close>

datatype bound = PosInf | Fin real

fun leBound :: "real \<Rightarrow> bound \<Rightarrow> bool" where
  "leBound v PosInf = True"
| "leBound v (Fin b) = (v \<le> b)"

fun ltBound :: "real \<Rightarrow> bound \<Rightarrow> bool" where
  "ltBound v PosInf = True"
| "ltBound v (Fin b) = (v < b)"

text \<open>
  The pairs \<open>(nx, ny)\<close> in the order of \<open>for ny = -1..1: for nx = -1..1\<close>, and the
  value \<open>this.vibrationValues[(y + ny) * this.width + (x + nx)]\<close> at an offset.
\<close>

definition scanOffsets :: "(int \<times> int) list" where
  "scanOffsets = concat (map (\<lambda>ny. map (\<lambda>nx. (nx, ny)) [- 1, 0, 1]) [- 1, 0, 1])"

definition neighbourValue :: "real list \<Rightarrow> nat \<Rightarrow> nat \<Rightarrow> nat \<Rightarrow> int \<times> int \<Rightarrow> real option" where
  "neighbourValue vib w x y off =
     typedGet vib (Some ((int y + snd off) * int w + (int x + fst off)))"

text \<open>One pass of the body of the neighbour loops on \<open>(minVibrationSoFar, candidateGradients)\<close>.\<close>

definition scanNeighbour ::
  "real list \<Rightarrow> nat \<Rightarrow> nat \<Rightarrow> nat \<Rightarrow> int \<times> int \<Rightarrow> bound \<times> (int \<times> int) list
     \<Rightarrow> bound \<times> (int \<times> int) list" where
  "scanNeighbour vib w x y off s =
     (let minVibrationSoFar = fst s; candidateGradients = snd s
      in if fst off = 0 \<and> snd off = 0 then s
         else
           (case neighbourValue vib w x y off of
              None \<Rightarrow> s
            | Some nv \<Rightarrow>
                if leBound nv minVibrationSoFar
                then (if ltBound nv minVibrationSoFar then (Fin nv, [off])
                      else (minVibrationSoFar, candidateGradients @ [off]))
                else s))"

definition candidateGradients :: "real list \<Rightarrow> nat \<Rightarrow> nat \<Rightarrow> nat \<Rightarrow> (int \<times> int) list" where
  "candidateGradients vib w x y =
     snd (fold (scanNeighbour vib w x y) scanOffsets (PosInf, [(0, 0)]))"

text \<open>
  The choice among the candidates: the only one, or the one at
  \<open>Math.floor(Math.random() * candidateGradients.length)\<close>. The list is never empty and
  the draw is below \<open>1\<close>, so the index is inside the list (lemma
  \<open>chosen_index_in_range\<close> below).
\<close>

definition chooseGradient ::
  "(int \<times> int) list \<Rightarrow> randomSource \<Rightarrow> nat \<Rightarrow> (int \<times> int) \<times> nat" where
  "chooseGradient cands rnd k =
     (if length cands = 1 then (cands ! 0, k)
      else (let (r, k1) = mathRandom rnd k
            in (cands ! nat \<lfloor>r * real (length cands)\<rfloor>, k1)))"

text \<open>The body of the two loops of \<open>computeGradients\<close> for the cell \<open>(x, y)\<close>.\<close>

definition gradientCell ::
  "real list \<Rightarrow> nat \<Rightarrow> randomSource \<Rightarrow> nat \<Rightarrow> nat \<Rightarrow> real list \<times> nat \<Rightarrow> real list \<times> nat" where
  "gradientCell vib w rnd x y s =
     (let gradients = fst s; k = snd s;
          myIndex = int (y * w + x);
          gradientIndex = shiftLeft1 myIndex;
          myVibration = typedGet vib (Some myIndex)
      in if (case myVibration of None \<Rightarrow> False | Some v \<Rightarrow> v < MIN_NODE_THRESHOLD)
         then (typedSet (typedSet gradients (Some gradientIndex) 0)
                 (Some (gradientIndex + 1)) 0, k)
         else
           (let (chosenGradient, k1) = chooseGradient (candidateGradients vib w x y) rnd k
            in (typedSet (typedSet gradients (Some gradientIndex)
                            (real_of_int (fst chosenGradient)))
                  (Some (gradientIndex + 1)) (real_of_int (snd chosenGradient)), k1)))"

text \<open>
  \<open>computeGradients\<close>: a fresh zero-filled array of \<open>w * h * 2\<close> cells, and the loops
  \<open>for (y = 1; y < h - 1; y++) for (x = 1; x < w - 1; x++)\<close>. For \<open>h = 0\<close> the bound
  \<open>h - 1\<close> is \<open>-1\<close> in the program and \<open>0\<close> here; the loop is empty in both.
\<close>

definition computeGradients ::
  "real list \<Rightarrow> randomSource \<Rightarrow> nat \<Rightarrow> nat \<Rightarrow> nat \<Rightarrow> real list \<times> nat" where
  "computeGradients vib rnd k w h =
     fold (\<lambda>y. fold (\<lambda>x. gradientCell vib w rnd x y) [1..<w - 1])
          [1..<h - 1] (replicate (w * h * 2) 0, k)"

text \<open>\<open>recalculateGradients\<close>: one bake. The timing and the log line are left out.\<close>

definition recalculateGradients ::
  "chladniParams \<Rightarrow> randomSource \<Rightarrow> nat \<Rightarrow> nat \<Rightarrow> nat \<Rightarrow> real list \<times> real list \<times> nat" where
  "recalculateGradients chladniParams rnd k w h =
     (let (vib, k1) = computeVibrationValues chladniParams rnd k w h;
          (gradients, k2) = computeGradients vib rnd k1 w h
      in (vib, gradients, k2))"

text \<open>
  How the application reads the fields: the vibration value and the gradient pair of
  the cell \<open>(x, y)\<close> of a grid of width \<open>w\<close>.
\<close>

definition vibrationAt :: "real list \<Rightarrow> nat \<Rightarrow> nat \<Rightarrow> nat \<Rightarrow> real option" where
  "vibrationAt vib w x y = typedGet vib (Some (int (y * w + x)))"

definition gradientAt :: "real list \<Rightarrow> nat \<Rightarrow> nat \<Rightarrow> nat \<Rightarrow> real option \<times> real option" where
  "gradientAt g w x y =
     (typedGet g (Some (int ((y * w + x) * 2))), typedGet g (Some (int ((y * w + x) * 2 + 1))))"


subsection \<open>The worker's global scope\<close>

text \<open>
  What the worker shares with its host: the intervals armed with \<open>setInterval\<close> (each
  of them calls \<open>bakeNextGradients\<close>), the messages posted with \<open>self.postMessage\<close>,
  oldest first, and the number of calls of \<open>Math.random\<close> made so far. \<open>setInterval\<close>
  returns a fresh positive handle.
\<close>

record workerScope =
  ws_intervals :: "nat list"
  ws_lastHandle :: nat
  ws_posted :: "fieldMessage list"
  ws_randomCalls :: nat

definition setInterval :: "'a workerScope_scheme \<Rightarrow> nat \<times> 'a workerScope_scheme" where
  "setInterval s =
     (let hnd = Suc (ws_lastHandle s)
      in (hnd, s\<lparr>ws_lastHandle := hnd, ws_intervals := ws_intervals s @ [hnd]\<rparr>))"

definition clearInterval :: "nat \<Rightarrow> 'a workerScope_scheme \<Rightarrow> 'a workerScope_scheme" where
  "clearInterval hnd s = s\<lparr>ws_intervals := removeAll hnd (ws_intervals s)\<rparr>"

definition postMessage :: "fieldMessage \<Rightarrow> 'a workerScope_scheme \<Rightarrow> 'a workerScope_scheme" where
  "postMessage m s = s\<lparr>ws_posted := ws_posted s @ [m]\<rparr>"

text \<open>
  The reconfiguration message; \<open>None\<close> is a field the message does not have
  (\<open>undefined\<close>).
\<close>

record reconfiguration =
  rc_width :: "nat option"
  rc_height :: "nat option"
  rc_chladniParams :: "chladniParams option"
  rc_frequency :: "real option"

text \<open>
  A dimension as the bake sees it. With \<open>null\<close> or \<open>undefined\<close> (\<open>None\<close>) in
  \<open>this.width\<close> or \<open>this.height\<close>, \<open>new Float32Array\<close> gets \<open>0\<close> or \<open>NaN\<close> and
  allocates no cell, and every loop condition on that dimension is false: the bake does
  what it does for the dimension \<open>0\<close>.
\<close>

definition dimension :: "nat option \<Rightarrow> nat" where
  "dimension d = (case d of None \<Rightarrow> 0 | Some n \<Rightarrow> n)"

subsection \<open>The worker of index.js, configured with \<open>chladniParams\<close>\<close>

record gradientWorker = workerScope +
  gw_vibrationValues :: "real list option"
  gw_gradients :: "real list option"
  gw_width :: "nat option"
  gw_height :: "nat option"
  gw_bakingTimer :: "nat option"
  gw_isResonantRound :: bool
  gw_currentParams :: chladniParams

text \<open>The state the constructor leaves, after \<open>k\<close> earlier calls of \<open>Math.random\<close>.\<close>

definition newGradientWorker :: "nat \<Rightarrow> gradientWorker" where
  "newGradientWorker k =
     \<lparr>ws_intervals = [], ws_lastHandle = 0, ws_posted = [], ws_randomCalls = k,
      gw_vibrationValues = None,
      gw_gradients = None,
      gw_width = None,
      gw_height = None,
      gw_bakingTimer = None,
      gw_isResonantRound = True,
      gw_currentParams = \<lparr>cp_m = 1, cp_n = 2, cp_l = 4 / 100\<rparr>\<rparr>"

text \<open>
  \<open>bakeNextGradients\<close>. The two buffers are transferred with the message: the typed
  arrays the worker still holds are detached and have length \<open>0\<close>.
\<close>

definition bakeNextGradients :: "randomSource \<Rightarrow> gradientWorker \<Rightarrow> gradientWorker" where
  "bakeNextGradients rnd s =
     (let s1 =
        (if gw_isResonantRound s
         then
           (let (vib, g, k) = recalculateGradients (gw_currentParams s) rnd (ws_randomCalls s)
                                (dimension (gw_width s)) (dimension (gw_height s));
                s2 = s\<lparr>ws_randomCalls := k, gw_vibrationValues := Some vib, gw_gradients := Some g\<rparr>;
                s3 = postMessage
                       \<lparr>msg_vibrationIntensity = MODERATE_RANDOM_VIBRATION_INTENSITY,
                        msg_vibrationValues = gw_vibrationValues s2,
                        msg_gradients = gw_gradients s2\<rparr> s2
            in s3\<lparr>gw_vibrationValues := Some [], gw_gradients := Some []\<rparr>)
         else
           postMessage
             \<lparr>msg_vibrationIntensity = AGGRESSIVE_RANDOM_VIBRATION_INTENSITY,
              msg_vibrationValues = None,
              msg_gradients = None\<rparr> s)
      in s1\<lparr>gw_isResonantRound := \<not> gw_isResonantRound s1\<rparr>)"

text \<open>
  \<open>receiveUpdateFromMainThread\<close>. The width and the height are assigned from the
  message whether it has them or not; the parameters are copied only when present.
\<close>

definition receiveUpdateFromMainThread ::
  "randomSource \<Rightarrow> reconfiguration \<Rightarrow> gradientWorker \<Rightarrow> gradientWorker" where
  "receiveUpdateFromMainThread rnd message s =
     (let s1 = s\<lparr>gw_width := rc_width message\<rparr>;
          s2 = s1\<lparr>gw_height := rc_height message\<rparr>;
          s3 = (case rc_chladniParams message of
                  None \<Rightarrow> s2
                | Some cp \<Rightarrow>
                    s2\<lparr>gw_currentParams := \<lparr>cp_m = cp_m cp, cp_n = cp_n cp, cp_l = cp_l cp\<rparr>\<rparr>);
          s4 = (case gw_bakingTimer s3 of
                  None \<Rightarrow> s3
                | Some hnd \<Rightarrow> if hnd \<noteq> 0 then clearInterval hnd s3 else s3);
          s5 = s4\<lparr>gw_isResonantRound := True\<rparr>;
          s6 = bakeNextGradients rnd s5;
          (hnd, s7) = setInterval s6
      in s7\<lparr>gw_bakingTimer := Some hnd\<rparr>)"

text \<open>The interval with the handle \<open>hnd\<close> fires, if it is still armed.\<close>

definition intervalFires :: "randomSource \<Rightarrow> nat \<Rightarrow> gradientWorker \<Rightarrow> gradientWorker" where
  "intervalFires rnd hnd s =
     (if hnd \<in> set (ws_intervals s) then bakeNextGradients rnd s else s)"

subsection \<open>The worker variant configured with a frequency\<close>

text \<open>
  The second worker of \<open>part_001\<close> keeps the table \<open>CHLADNI_PARAMS\<close> of parameter
  records at module level and bakes with the record at \<open>gradientParametersIndex\<close>. The
  records are mutable objects, so the table is part of the state.
\<close>

record frequencyWorker = workerScope +
  fw_vibrationValues :: "real list option"
  fw_gradients :: "real list option"
  fw_width :: "nat option"
  fw_height :: "nat option"
  fw_gradientParametersIndex :: nat
  fw_bakingTimer :: "nat option"
  fw_isResonantRound :: bool
  fw_currentFrequency :: real
  fw_CHLADNI_PARAMS :: "chladniParams list"

definition L1 :: real where "L1 = 4 / 100"
definition L2 :: real where "L2 = 2 / 100"
definition L3 :: real where "L3 = 18 / 1000"

definition CHLADNI_PARAMS :: "chladniParams list" where
  "CHLADNI_PARAMS =
     [\<lparr>cp_m = 1, cp_n = 2, cp_l = L1\<rparr>,
      \<lparr>cp_m = 1, cp_n = 3, cp_l = L3\<rparr>,
      \<lparr>cp_m = 1, cp_n = 4, cp_l = L2\<rparr>,
      \<lparr>cp_m = 1, cp_n = 5, cp_l = L2\<rparr>,
      \<lparr>cp_m = 2, cp_n = 3, cp_l = L2\<rparr>,
      \<lparr>cp_m = 2, cp_n = 5, cp_l = L2\<rparr>,
      \<lparr>cp_m = 3, cp_n = 4, cp_l = L2\<rparr>,
      \<lparr>cp_m = 3, cp_n = 5, cp_l = L2\<rparr>,
      \<lparr>cp_m = 3, cp_n = 7, cp_l = L2\<rparr>]"

definition newFrequencyWorker :: "nat \<Rightarrow> frequencyWorker" where
  "newFrequencyWorker k =
     \<lparr>ws_intervals = [], ws_lastHandle = 0, ws_posted = [], ws_randomCalls = k,
      fw_vibrationValues = None,
      fw_gradients = None,
      fw_width = None,
      fw_height = None,
      fw_gradientParametersIndex = 0,
      fw_bakingTimer = None,
      fw_isResonantRound = True,
      fw_currentFrequency = L1,
      fw_CHLADNI_PARAMS = CHLADNI_PARAMS\<rparr>"

text \<open>
  \<open>bakeNextGradients\<close> of this variant. \<open>chladniParams.l = this.currentFrequency\<close>
  assigns to the record of the table itself. Were the index outside the table, the
  assignment would throw a \<open>TypeError\<close>: the result \<open>None\<close>.
\<close>

definition bakeNextGradients_frequency ::
  "randomSource \<Rightarrow> frequencyWorker \<Rightarrow> frequencyWorker option" where
  "bakeNextGradients_frequency rnd s =
     (if fw_isResonantRound s
      then
        (if fw_gradientParametersIndex s < length (fw_CHLADNI_PARAMS s)
         then
           (let i = fw_gradientParametersIndex s;
                chladniParams = (fw_CHLADNI_PARAMS s ! i)\<lparr>cp_l := fw_currentFrequency s\<rparr>;
                s1 = s\<lparr>fw_CHLADNI_PARAMS := (fw_CHLADNI_PARAMS s)[i := chladniParams]\<rparr>;
                (vib, g, k) = recalculateGradients chladniParams rnd (ws_randomCalls s1)
                                (dimension (fw_width s1)) (dimension (fw_height s1));
                s2 = s1\<lparr>ws_randomCalls := k, fw_vibrationValues := Some vib, fw_gradients := Some g\<rparr>;
                s3 = s2\<lparr>fw_gradientParametersIndex :=
                          (fw_gradientParametersIndex s2 + 1) mod length (fw_CHLADNI_PARAMS s2)\<rparr>;
                s4 = postMessage
                       \<lparr>msg_vibrationIntensity = MODERATE_RANDOM_VIBRATION_INTENSITY,
                        msg_vibrationValues = fw_vibrationValues s3,
                        msg_gradients = fw_gradients s3\<rparr> s3;
                s5 = s4\<lparr>fw_vibrationValues := Some [], fw_gradients := Some []\<rparr>
            in Some (s5\<lparr>fw_isResonantRound := \<not> fw_isResonantRound s5\<rparr>))
         else None)
      else
        (let s1 = postMessage
                    \<lparr>msg_vibrationIntensity = AGGRESSIVE_RANDOM_VIBRATION_INTENSITY,
                     msg_vibrationValues = None,
                     msg_gradients = None\<rparr> s
         in Some (s1\<lparr>fw_isResonantRound := \<not> fw_isResonantRound s1\<rparr>)))"

text \<open>
  \<open>receiveUpdateFromMainThread\<close> of this variant: each of the three fields is assigned
  only if the message has it.
\<close>

definition receiveUpdateFromMainThread_frequency ::
  "randomSource \<Rightarrow> reconfiguration \<Rightarrow> frequencyWorker \<Rightarrow> frequencyWorker option" where
  "receiveUpdateFromMainThread_frequency rnd message s =
     (let s1 = (case rc_width message of None \<Rightarrow> s | Some w \<Rightarrow> s\<lparr>fw_width := Some w\<rparr>);
          s2 = (case rc_height message of None \<Rightarrow> s1 | Some h \<Rightarrow> s1\<lparr>fw_height := Some h\<rparr>);
          s3 = (case rc_frequency message of
                  None \<Rightarrow> s2 | Some f \<Rightarrow> s2\<lparr>fw_currentFrequency := f\<rparr>);
          s4 = (case fw_bakingTimer s3 of
                  None \<Rightarrow> s3
                | Some hnd \<Rightarrow> if hnd \<noteq> 0 then clearInterval hnd s3 else s3);
          s5 = s4\<lparr>fw_isResonantRound := True\<rparr>
      in case bakeNextGradients_frequency rnd s5 of
           None \<Rightarrow> None
         | Some s6 \<Rightarrow>
             (let (hnd, s7) = setInterval s6
              in Some (s7\<lparr>fw_bakingTimer := Some hnd\<rparr>)))"


subsection \<open>The sender of the reconfiguration messages\<close>



subsection \<open>Notions used to state the properties of the gradient field\<close>





text \<open>
  What the body of the cell loops computes for the cell \<open>(x, y)\<close> when \<open>k\<close> calls of
  \<open>Math.random\<close> have been made: the pair it stores and the new count of calls.
\<close>

definition cellOutcome ::
  "real list \<Rightarrow> nat \<Rightarrow> randomSource \<Rightarrow> nat \<Rightarrow> nat \<Rightarrow> nat \<Rightarrow> (real \<times> real) \<times> nat" where
  "cellOutcome vib w rnd x y k =
     (if (case typedGet vib (Some (int (y * w + x))) of
            None \<Rightarrow> False | Some v \<Rightarrow> v < MIN_NODE_THRESHOLD)
      then ((0, 0), k)
      else (let (chosenGradient, k1) = chooseGradient (candidateGradients vib w x y) rnd k
            in ((real_of_int (fst chosenGradient), real_of_int (snd chosenGradient)), k1)))"

text \<open>The interior cells in the order the loops of \<open>computeGradients\<close> visit them.\<close>

definition interiorCells :: "nat \<Rightarrow> nat \<Rightarrow> (nat \<times> nat) list" where
  "interiorCells w h = concat (map (\<lambda>y. map (\<lambda>x. (x, y)) [1..<w - 1]) [1..<h - 1])"



section \<open>Properties of the message handler\<close>

lemma onMessageFromWorker_colors [simp]:
  "app_colors (onMessageFromWorker m a) = app_colors a"
  by (simp add: onMessageFromWorker_def Let_def)

lemma onMessageFromWorker_colorIndex:
  "app_colorIndex (onMessageFromWorker m a) =
     (if msg_gradients m \<noteq> None
      then jsModLength (jsSucc (app_colorIndex a)) (length (app_colors a))
      else app_colorIndex a)"
  by (simp add: onMessageFromWorker_def Let_def)

lemma deliverAll_colors [simp]: "app_colors (deliverAll ms a) = app_colors a"
  unfolding deliverAll_def by (induction ms arbitrary: a) simp_all

lemma deliverAll_colorIndex:
  assumes "app_colors a \<noteq> []" and "app_colorIndex a = Some c"
  shows "app_colorIndex (deliverAll ms a) =
           Some (if fieldDeliveries ms = 0 then c
                 else (c + fieldDeliveries ms) mod length (app_colors a))"
  using assms
proof (induction ms arbitrary: a c)
  case Nil
  then show ?case by (simp add: deliverAll_def fieldDeliveries_def)
next
  case (Cons m ms)
  let ?a' = "onMessageFromWorker m a"
  have step: "deliverAll (m # ms) a = deliverAll ms ?a'"
    by (simp add: deliverAll_def)
  show ?case
  proof (cases "msg_gradients m = None")
    case True
    then have ci: "app_colorIndex ?a' = Some c"
      using Cons.prems by (simp add: onMessageFromWorker_colorIndex)
    have ne: "app_colors ?a' \<noteq> []" using Cons.prems by simp
    from ne ci have "app_colorIndex (deliverAll ms ?a') =
        Some (if fieldDeliveries ms = 0 then c
              else (c + fieldDeliveries ms) mod length (app_colors ?a'))"
      by (rule Cons.IH)
    moreover have "fieldDeliveries (m # ms) = fieldDeliveries ms"
      using True by (simp add: fieldDeliveries_def)
    ultimately show ?thesis by (simp add: step)
  next
    case False
    let ?c' = "(c + 1) mod length (app_colors a)"
    have ci: "app_colorIndex ?a' = Some ?c'"
      using False Cons.prems by (simp add: onMessageFromWorker_colorIndex)
    have ne: "app_colors ?a' \<noteq> []" using Cons.prems by simp
    have ih: "app_colorIndex (deliverAll ms ?a') =
        Some (if fieldDeliveries ms = 0 then ?c'
              else (?c' + fieldDeliveries ms) mod length (app_colors ?a'))"
      using ne ci by (rule Cons.IH)
    have cnt: "fieldDeliveries (m # ms) = Suc (fieldDeliveries ms)"
      using False by (simp add: fieldDeliveries_def)
    have "(?c' + fieldDeliveries ms) mod length (app_colors a) =
          (c + Suc (fieldDeliveries ms)) mod length (app_colors a)"
      by (simp add: mod_add_left_eq)
    then show ?thesis using ih cnt by (simp add: step)
  qed
qed


text \<open>
  Claim C8. Starting from \<open>colorIndex = 0\<close> with a non-empty palette, after a sequence
  of deliveries of which \<open>k\<close> carry field buffers (the others, interleaved anywhere, carry
  \<open>null\<close>), \<open>colorIndex = k mod paletteLength\<close>.
\<close>

theorem colorIndex_cycles:
  assumes "app_colors a \<noteq> []" and "app_colorIndex a = Some 0"
  shows "app_colorIndex (deliverAll ms a) =
           Some (fieldDeliveries ms mod length (app_colors a))"
proof -
  have "app_colorIndex (deliverAll ms a) =
          Some (if fieldDeliveries ms = 0 then 0
                else (0 + fieldDeliveries ms) mod length (app_colors a))"
    using assms by (rule deliverAll_colorIndex)
  then show ?thesis by simp
qed

theorem colorIndex_cycles_witness:
  "app_colorIndex
     (deliverAll
        [\<lparr>msg_vibrationIntensity = 3, msg_vibrationValues = Some [0], msg_gradients = Some [0, 0]\<rparr>,
         \<lparr>msg_vibrationIntensity = 9 / 2, msg_vibrationValues = None, msg_gradients = None\<rparr>,
         \<lparr>msg_vibrationIntensity = 3, msg_vibrationValues = Some [0], msg_gradients = Some [0, 0]\<rparr>,
         \<lparr>msg_vibrationIntensity = 9 / 2, msg_vibrationValues = None, msg_gradients = None\<rparr>,
         \<lparr>msg_vibrationIntensity = 3, msg_vibrationValues = Some [0], msg_gradients = Some [0, 0]\<rparr>]
        (newChladniApp 1 1 [] [10, 20] 5 0))
   = Some 1"
  using colorIndex_cycles [of "newChladniApp 1 1 [] [10, 20] 5 0"
      "[\<lparr>msg_vibrationIntensity = 3, msg_vibrationValues = Some [0], msg_gradients = Some [0, 0]\<rparr>,
        \<lparr>msg_vibrationIntensity = 9 / 2, msg_vibrationValues = None, msg_gradients = None\<rparr>,
        \<lparr>msg_vibrationIntensity = 3, msg_vibrationValues = Some [0], msg_gradients = Some [0, 0]\<rparr>,
        \<lparr>msg_vibrationIntensity = 9 / 2, msg_vibrationValues = None, msg_gradients = None\<rparr>,
        \<lparr>msg_vibrationIntensity = 3, msg_vibrationValues = Some [0], msg_gradients = Some [0, 0]\<rparr>]"]
  by (simp add: newChladniApp_def fieldDeliveries_def mod_Suc)


text \<open>
  Claim C10. A rest-round message (both buffers \<open>null\<close>) sets the held buffers to
  \<open>null\<close> and the intensity to the message's, and leaves \<open>colorIndex\<close> and
  \<open>selectedColor\<close> as they were; whenever a delivery changes \<open>colorIndex\<close>, the
  message carried a gradient buffer.
\<close>

theorem rest_round_message_effect:
  "(msg_vibrationValues m = None \<and> msg_gradients m = None \<longrightarrow>
      app_vibrationValues (onMessageFromWorker m a) = None \<and>
      app_gradients (onMessageFromWorker m a) = None \<and>
      app_vibrationIntensity (onMessageFromWorker m a) = msg_vibrationIntensity m \<and>
      app_colorIndex (onMessageFromWorker m a) = app_colorIndex a \<and>
      app_selectedColor (onMessageFromWorker m a) = app_selectedColor a) \<and>
   (app_colorIndex (onMessageFromWorker m a) \<noteq> app_colorIndex a \<longrightarrow>
      msg_gradients m \<noteq> None)"
  by (simp add: onMessageFromWorker_def Let_def)

theorem rest_round_message_effect_witness:
  "app_vibrationValues
      (onMessageFromWorker
         \<lparr>msg_vibrationIntensity = 9 / 2, msg_vibrationValues = None, msg_gradients = None\<rparr>
         ((newChladniApp 1 1 [] [10, 20] 5 0)
            \<lparr>app_vibrationValues := Some [0], app_gradients := Some [0, 0]\<rparr>)) = None \<and>
   app_gradients
      (onMessageFromWorker
         \<lparr>msg_vibrationIntensity = 9 / 2, msg_vibrationValues = None, msg_gradients = None\<rparr>
         ((newChladniApp 1 1 [] [10, 20] 5 0)
            \<lparr>app_vibrationValues := Some [0], app_gradients := Some [0, 0]\<rparr>)) = None \<and>
   app_vibrationIntensity
      (onMessageFromWorker
         \<lparr>msg_vibrationIntensity = 9 / 2, msg_vibrationValues = None, msg_gradients = None\<rparr>
         ((newChladniApp 1 1 [] [10, 20] 5 0)
            \<lparr>app_vibrationValues := Some [0], app_gradients := Some [0, 0]\<rparr>)) = 9 / 2 \<and>
   app_colorIndex
      (onMessageFromWorker
         \<lparr>msg_vibrationIntensity = 9 / 2, msg_vibrationValues = None, msg_gradients = None\<rparr>
         ((newChladniApp 1 1 [] [10, 20] 5 0)
            \<lparr>app_vibrationValues := Some [0], app_gradients := Some [0, 0]\<rparr>)) = Some 0 \<and>
   app_selectedColor
      (onMessageFromWorker
         \<lparr>msg_vibrationIntensity = 9 / 2, msg_vibrationValues = None, msg_gradients = None\<rparr>
         ((newChladniApp 1 1 [] [10, 20] 5 0)
            \<lparr>app_vibrationValues := Some [0], app_gradients := Some [0, 0]\<rparr>)) = Some 10"
  using rest_round_message_effect
    [of "\<lparr>msg_vibrationIntensity = 9 / 2, msg_vibrationValues = None, msg_gradients = None\<rparr>"
        "(newChladniApp 1 1 [] [10, 20] 5 0)
            \<lparr>app_vibrationValues := Some [0], app_gradients := Some [0, 0]\<rparr>"]
  by (simp add: newChladniApp_def)


section \<open>Properties of the frame loop\<close>

lemma typedSet_length [simp]: "length (typedSet xs i v) = length xs"
  by (simp add: typedSet_def split: option.splits)

lemma typedSet_nth:
  "j < length xs \<Longrightarrow> typedSet xs i v ! j = (if i = Some (int j) then v else xs ! j)"
  by (auto simp: typedSet_def split: option.splits)

lemma particleAt_nth: "j < length ps \<Longrightarrow> particleAt ps j = ps ! j"
  by (simp add: particleAt_def typedGet_def)

lemma particleAt_out: "length ps \<le> j \<Longrightarrow> particleAt ps j = NaN"
  by (simp add: particleAt_def typedGet_def)

lemma particleLoopInv_0: "particleLoopInv rnd color a k 0 (a, k)"
  by (simp add: particleLoopInv_def)

lemma updateParticle_step:
  assumes inv: "particleLoopInv rnd color a k m s"
    and m: "2 * m < length (app_particles a)"
  shows "particleLoopInv rnd color a k (Suc m) (updateParticle rnd color (2 * m) s)"
proof -
  obtain b kb where s: "s = (b, kb)" by (cases s)
  let ?ps = "app_particles a"
  let ?n = "length ?ps"
  from inv s have kb: "kb = k + 2 * m"
    and frame: "b = a\<lparr>app_particles := app_particles b, app_buffer := app_buffer b\<rparr>"
    and lenp: "length (app_particles b) = ?n"
    and lenb: "length (app_buffer b) = length (app_buffer a)"
    and parts: "\<And>j. j < ?n \<Longrightarrow> app_particles b ! j =
          (if j < 2 * m
           then (if even j then fst (movedParticle rnd a k (j div 2))
                 else snd (movedParticle rnd a k (j div 2)))
           else ?ps ! j)"
    and buf: "\<And>c. c < length (app_buffer a) \<Longrightarrow> app_buffer b ! c =
          (if \<exists>m' < m. linearIndex (app_width a) (fst (movedParticle rnd a k m'))
                           (snd (movedParticle rnd a k m')) = Some (int c)
           then color else app_buffer a ! c)"
    by (simp_all add: particleLoopInv_def)
  have g: "app_gradients b = app_gradients a" and w: "app_width b = app_width a"
    and vi: "app_vibrationIntensity b = app_vibrationIntensity a"
    and hv: "app_halfVibrationIntensity b = app_halfVibrationIntensity a"
    by (subst frame, simp)+
  have x: "particleAt (app_particles b) (2 * m) = particleAt ?ps (2 * m)"
    using m lenp parts [of "2 * m"] by (simp add: particleAt_nth)
  have y: "particleAt (app_particles b) (Suc (2 * m)) = particleAt ?ps (Suc (2 * m))"
  proof (cases "2 * m + 1 < ?n")
    case True
    then show ?thesis using lenp parts [of "2 * m + 1"] by (simp add: particleAt_nth)
  next
    case False
    then show ?thesis using lenp by (simp add: particleAt_out)
  qed
  obtain x' y' where mv: "movedParticle rnd a k m = (x', y')" by (cases "movedParticle rnd a k m")
  have upd: "updateParticle rnd color (2 * m) s =
     (b\<lparr>app_particles := typedSet (typedSet (app_particles b) (Some (int (2 * m))) x')
                             (Some (int (2 * m) + 1)) y',
        app_buffer := typedSet (app_buffer b) (linearIndex (app_width a) x' y') color\<rparr>,
      k + 2 * m + 2)"
    using mv
    by (simp add: updateParticle_def s kb mathRandom_def Let_def x y g w vi hv movedParticle_def
        add.commute add.left_commute)
  let ?P = "typedSet (typedSet (app_particles b) (Some (int (2 * m))) x') (Some (int (2 * m) + 1)) y'"
  let ?B = "typedSet (app_buffer b) (linearIndex (app_width a) x' y') color"
  have P: "?P ! j =
          (if j < 2 * Suc m
           then (if even j then fst (movedParticle rnd a k (j div 2))
                 else snd (movedParticle rnd a k (j div 2)))
           else ?ps ! j)" if j: "j < ?n" for j
  proof -
    have upd: "?P ! j = (if j = 2 * m + 1 then y' else if j = 2 * m then x' else app_particles b ! j)"
      using j lenp by (auto simp: typedSet_nth)
    consider "j = 2 * m" | "j = 2 * m + 1" | "j < 2 * m" | "2 * m + 1 < j" by arith
    then show ?thesis
    proof cases
      case 1
      then show ?thesis using upd mv by simp
    next
      case 2
      then show ?thesis using upd mv by simp
    next
      case 3
      then show ?thesis using upd parts [OF j] by simp
    next
      case 4
      then show ?thesis using upd parts [OF j] by simp
    qed
  qed
  have B: "?B ! c =
          (if \<exists>m' < Suc m. linearIndex (app_width a) (fst (movedParticle rnd a k m'))
                           (snd (movedParticle rnd a k m')) = Some (int c)
           then color else app_buffer a ! c)" if c: "c < length (app_buffer a)" for c
  proof -
    have "?B ! c = (if linearIndex (app_width a) x' y' = Some (int c) then color else app_buffer b ! c)"
      using c lenb by (simp add: typedSet_nth)
    then show ?thesis using buf [OF c] mv by (auto simp: less_Suc_eq)
  qed
  have F: "b\<lparr>app_particles := ?P, app_buffer := ?B\<rparr> = a\<lparr>app_particles := ?P, app_buffer := ?B\<rparr>"
    by (subst frame) simp
  show ?thesis
    unfolding upd particleLoopInv_def
    using P B F by (simp add: lenp lenb)
qed


lemma particle_loop_inv:
  "m \<le> (length (app_particles a) + 1) div 2 \<Longrightarrow>
   particleLoopInv rnd color a k m
     (fold (updateParticle rnd color) (map (\<lambda>j. 2 * j) [0..<m]) (a, k))"
proof (induction m)
  case 0
  show ?case by (simp add: particleLoopInv_0)
next
  case (Suc m)
  then have "2 * m < length (app_particles a)" by arith
  moreover have "particleLoopInv rnd color a k m
     (fold (updateParticle rnd color) (map (\<lambda>j. 2 * j) [0..<m]) (a, k))"
    using Suc by simp
  ultimately show ?case
    by (simp add: updateParticle_step)
qed

lemma particleLoopInvD:
  assumes "particleLoopInv rnd color a k m s"
  shows "snd s = k + 2 * m"
    and "length (app_particles (fst s)) = length (app_particles a)"
    and "length (app_buffer (fst s)) = length (app_buffer a)"
    and "j < length (app_particles a) \<Longrightarrow> j < 2 * m \<Longrightarrow>
         app_particles (fst s) ! j =
           (if even j then fst (movedParticle rnd a k (j div 2))
            else snd (movedParticle rnd a k (j div 2)))"
    and "c < length (app_buffer a) \<Longrightarrow>
         app_buffer (fst s) ! c =
          (if \<exists>m' < m. linearIndex (app_width a) (fst (movedParticle rnd a k m'))
                           (snd (movedParticle rnd a k m')) = Some (int c)
           then color else app_buffer a ! c)"
  using assms unfolding particleLoopInv_def by simp_all

lemma movedParticle_buffer [simp]:
  "movedParticle rnd (a\<lparr>app_buffer := b\<rparr>) k m = movedParticle rnd a k m"
  by (simp add: movedParticle_def)

lemma update_running:
  fixes a :: chladniApp and rgb :: "real \<Rightarrow> real \<Rightarrow> real \<Rightarrow> 32 word"
    and rnd :: randomSource and k :: nat
  assumes "app_isRunning a"
  defines "a' \<equiv> fst (update rgb rnd (a, k))"
  shows "length (app_particles a') = length (app_particles a)"
    and "length (app_buffer a') = length (app_buffer a)"
    and "j < length (app_particles a) \<Longrightarrow>
         app_particles a' ! j =
           (if even j then fst (movedParticle rnd a k (j div 2))
            else snd (movedParticle rnd a k (j div 2)))"
    and "c < length (app_buffer a) \<Longrightarrow>
         app_buffer a' ! c =
           (if \<exists>m < (length (app_particles a) + 1) div 2.
                 linearIndex (app_width a) (fst (movedParticle rnd a k m))
                   (snd (movedParticle rnd a k m)) = Some (int c)
            then particleColor a else fillBuffer rgb a ! c)"
proof -
  let ?a1 = "a\<lparr>app_buffer := fillBuffer rgb a\<rparr>"
  let ?n = "length (app_particles a)"
  let ?s = "fold (updateParticle rnd (particleColor a)) (map (\<lambda>j. 2 * j) [0..<(?n + 1) div 2]) (?a1, k)"
  have lenfill: "length (fillBuffer rgb a) = length (app_buffer a)"
  proof -
    have "length (fold (\<lambda>i b. let intensity = vib ! i * 64
                      in typedSet b (Some (int i)) (rgb intensity intensity intensity)) xs b0) = length b0"
      for vib xs and b0 :: "32 word list"
      by (induction xs arbitrary: b0) (simp_all add: Let_def)
    then show ?thesis by (simp add: fillBuffer_def split: option.splits)
  qed
  have inv: "particleLoopInv rnd (particleColor a) ?a1 k ((?n + 1) div 2) ?s"
    using particle_loop_inv [of "(?n + 1) div 2" ?a1 rnd "particleColor a" k] by simp
  have a': "a' = (fst ?s)\<lparr>app_fpsCount := app_fpsCount (fst ?s) + 1\<rparr>"
    using assms(1)
    by (simp add: a'_def update_def Let_def particleColor_def particleIndices_def split: prod.splits)
  note D = particleLoopInvD [OF inv]
  show "length (app_particles a') = length (app_particles a)"
    using D(2) by (simp add: a')
  show "length (app_buffer a') = length (app_buffer a)"
    using D(3) by (simp add: a' lenfill)
  show "app_particles a' ! j =
           (if even j then fst (movedParticle rnd a k (j div 2))
            else snd (movedParticle rnd a k (j div 2)))" if "j < ?n"
  proof -
    have "j < 2 * ((?n + 1) div 2)" using that by arith
    then show ?thesis using D(4) [of j] that by (simp add: a')
  qed
  show "app_buffer a' ! c =
           (if \<exists>m < (?n + 1) div 2.
                 linearIndex (app_width a) (fst (movedParticle rnd a k m))
                   (snd (movedParticle rnd a k m)) = Some (int c)
            then particleColor a else fillBuffer rgb a ! c)" if "c < length (app_buffer a)"
  proof -
    have "app_buffer a' = app_buffer (fst ?s)" by (simp add: a')
    moreover have "app_buffer ?a1 ! c = fillBuffer rgb a ! c" by simp
    moreover have "c < length (app_buffer ?a1)" using that by (simp add: lenfill)
    ultimately show ?thesis using D(5) [of c] by (simp only: movedParticle_buffer) simp
  qed
qed


lemma movedParticle_no_field:
  "app_gradients a = None \<Longrightarrow>
   movedParticle rnd a k m =
     (jsAdd (particleAt (app_particles a) (2 * m))
        (Num (jitter (Rep_randomNumber (rnd (k + 2 * m)))
                (app_vibrationIntensity a) (app_halfVibrationIntensity a))),
      jsAdd (particleAt (app_particles a) (2 * m + 1))
        (Num (jitter (Rep_randomNumber (rnd (k + 2 * m + 1)))
                (app_vibrationIntensity a) (app_halfVibrationIntensity a))))"
  by (simp add: movedParticle_def moveParticle_def)

lemma jitter_range:
  assumes "0 < vI"
  shows "- (vI / 2) \<le> jitter (Rep_randomNumber r) vI (vI / 2)"
    and "jitter (Rep_randomNumber r) vI (vI / 2) < vI / 2"
proof -
  have r: "0 \<le> Rep_randomNumber r" "Rep_randomNumber r < 1"
    using Rep_randomNumber [of r] by simp_all
  have "0 \<le> Rep_randomNumber r * vI" using r(1) assms by simp
  then show "- (vI / 2) \<le> jitter (Rep_randomNumber r) vI (vI / 2)"
    by (simp add: jitter_def)
  have "Rep_randomNumber r * vI < 1 * vI" using r(2) assms by (simp only: mult_strict_right_mono)
  then show "jitter (Rep_randomNumber r) vI (vI / 2) < vI / 2"
    by (simp add: jitter_def mult.commute)
qed

lemma jitter_mean:
  "(\<lambda>N. (\<Sum>i<N. jitter (real i / real N) vI (vI / 2)) / real N) \<longlonglongrightarrow> 0"
proof -
  have gauss: "(\<Sum>i<N. real i) = real N * (real N - 1) / 2" for N
    by (induction N) (simp_all add: field_simps)
  have "(\<Sum>i<N. jitter (real i / real N) vI (vI / 2)) / real N = - (vI / 2) * inverse (real N)" for N
  proof (cases "N = 0")
    case True
    then show ?thesis by simp
  next
    case False
    have "(\<Sum>i<N. jitter (real i / real N) vI (vI / 2)) =
          (\<Sum>i<N. (vI / real N) * real i) - (\<Sum>i<N. vI / 2)"
      by (simp add: jitter_def sum_subtractf mult.commute)
    also have "\<dots> = (vI / real N) * (\<Sum>i<N. real i) - real N * (vI / 2)"
      by (simp add: sum_distrib_left)
    also have "\<dots> = - (vI / 2)" using False by (simp add: gauss field_simps)
    finally have eq: "(\<Sum>i<N. jitter (real i / real N) vI (vI / 2)) = - (vI / 2)" .
    show ?thesis by (subst eq) (rule divide_inverse)
  qed
  moreover have "(\<lambda>N. - (vI / 2) * inverse (real N)) \<longlonglongrightarrow> - (vI / 2) * 0"
    by (intro tendsto_mult tendsto_const lim_inverse_n)
  ultimately show ?thesis by simp
qed


lemma halfIntensity_newChladniApp:
  "app_halfVibrationIntensity (newChladniApp w h ps pal nr bg) =
   app_vibrationIntensity (newChladniApp w h ps pal nr bg) / 2"
  by (simp add: newChladniApp_def)

lemma halfIntensity_onMessageFromWorker:
  "app_halfVibrationIntensity (onMessageFromWorker m a) =
   app_vibrationIntensity (onMessageFromWorker m a) / 2"
  by (simp add: onMessageFromWorker_def Let_def)

lemma jitter_preimage:
  fixes I :: real
  assumes "0 < I"
  shows "{r. c \<le> r * I - I / 2 \<and> r * I - I / 2 < d} = {(c + I / 2) / I ..< (d + I / 2) / I}"
  using assms by (auto simp: field_simps)

lemma jitter_onto:
  fixes I d :: real
  assumes "0 < I" "- (I / 2) \<le> d" "d < I / 2"
  shows "Rep_randomNumber (randomOf ((d + I / 2) / I)) * I - I / 2 = d"
proof -
  have "0 \<le> (d + I / 2) / I" "(d + I / 2) / I < 1" using assms by (simp_all add: field_simps)
  then have "Rep_randomNumber (randomOf ((d + I / 2) / I)) = (d + I / 2) / I"
    by (simp add: randomOf.rep_eq)
  then show ?thesis using assms by (simp add: field_simps)
qed

lemma no_field_coordinate:
  fixes a :: chladniApp and rgb :: "real \<Rightarrow> real \<Rightarrow> real \<Rightarrow> 32 word"
    and rnd :: randomSource and k j :: nat
  assumes run: "app_isRunning a"
    and nofield: "app_gradients a = None"
    and j: "j < length (app_particles a)"
  shows "app_particles (fst (update rgb rnd (a, k))) ! j =
           jsAdd (app_particles a ! j)
             (Num (jitter (Rep_randomNumber (rnd (k + j)))
                     (app_vibrationIntensity a) (app_halfVibrationIntensity a)))"
proof -
  have new: "app_particles (fst (update rgb rnd (a, k))) ! j =
           (if even j then fst (movedParticle rnd a k (j div 2))
            else snd (movedParticle rnd a k (j div 2)))"
    using update_running(3) [OF run j] .
  show ?thesis
  proof (cases "even j")
    case True
    then obtain i where i: "j = 2 * i" by (rule evenE)
    have "app_particles (fst (update rgb rnd (a, k))) ! j = fst (movedParticle rnd a k i)"
      using new by (simp add: i)
    then show ?thesis
      using j by (simp add: movedParticle_no_field [OF nofield] particleAt_nth i)
  next
    case False
    then obtain i where i: "j = 2 * i + 1" by (rule oddE)
    have "app_particles (fst (update rgb rnd (a, k))) ! j = snd (movedParticle rnd a k i)"
      using new by (simp add: i)
    then show ?thesis
      using j by (simp add: movedParticle_no_field [OF nofield] particleAt_nth i)
  qed
qed

lemma driftSource_draws:
  "Rep_randomNumber (driftSource 0) = 1 / 2"
  "Rep_randomNumber (driftSource (Suc 0)) = 1 / 10"
  "Rep_randomNumber (driftSource 2) = 1 / 2"
  "Rep_randomNumber (driftSource 3) = 1 / 2"
  by (simp_all add: driftSource_def randomOf.rep_eq)

lemma driftStartApp_eq:
  "driftStartApp =
     \<lparr>app_buffer = replicate 25 0,
      app_vibrationValues = Some (replicate 25 0),
      app_gradients = Some (replicate 50 0),
      app_vibrationIntensity = 3, app_halfVibrationIntensity = 3 / 2,
      app_debugVibration = False, app_isRunning = True, app_width = 5,
      app_height = 5, app_particles = [Num 2, Num (1 / 5)],
      app_nonResonantColor = 7, app_colorIndex = Some 1,
      app_colors = [10, 20], app_selectedColor = Some 20,
      app_backgroundColor = 0, app_fpsCount = 0\<rparr>"
  by (simp add: driftStartApp_def onMessageFromWorker_def newChladniApp_def Let_def
      DEFAULT_RANDOM_VIBRATION_INTENSITY_def)

lemma driftStartApp_frame:
  "update (\<lambda>r g b. 0) driftSource (driftStartApp, 0) =
     (driftStartApp
        \<lparr>app_particles := [Num 2, Num (- 1)],
         app_fpsCount := 1\<rparr>, 2)"
  by (simp add: driftStartApp_eq update_def fillBuffer_def particleColor_def
      particleIndices_def updateParticle_def mathRandom_def moveParticle_def
      obtainGradientAt_def linearIndex_def typedGet_def typedSet_def particleAt_def
      jitter_def MAX_GRADIENT_INTENSITY_def Let_def driftSource_draws)

lemma driftStartApp_second_frame:
  "update (\<lambda>r g b. 0) driftSource
     (update (\<lambda>r g b. 0) driftSource (driftStartApp, 0)) =
     (driftStartApp
        \<lparr>app_particles := [NaN, NaN],
         app_fpsCount := 2\<rparr>, 4)"
  unfolding driftStartApp_frame
  by (simp add: driftStartApp_eq update_def fillBuffer_def particleColor_def
      particleIndices_def updateParticle_def mathRandom_def moveParticle_def
      obtainGradientAt_def linearIndex_def typedGet_def typedSet_def particleAt_def
      jitter_def MAX_GRADIENT_INTENSITY_def Let_def driftSource_draws)

lemma driftedApp_eq:
  "driftedApp =
     \<lparr>app_buffer = replicate 25 0,
      app_vibrationValues = None,
      app_gradients = None,
      app_vibrationIntensity = 9 / 2, app_halfVibrationIntensity = 9 / 4,
      app_debugVibration = False, app_isRunning = True, app_width = 5,
      app_height = 5, app_particles = [NaN, NaN],
      app_nonResonantColor = 7, app_colorIndex = Some 1,
      app_colors = [10, 20], app_selectedColor = Some 20,
      app_backgroundColor = 0, app_fpsCount = 2\<rparr>"
  unfolding driftedApp_def driftStartApp_second_frame
  by (simp add: driftStartApp_eq onMessageFromWorker_def Let_def)

lemma driftedApp_frame:
  "app_particles (fst (update (\<lambda>r g b. 0) driftSource (driftedApp, 4))) = [NaN, NaN]"
  by (simp add: driftedApp_eq update_def fillBuffer_def particleColor_def
      particleIndices_def updateParticle_def mathRandom_def moveParticle_def
      linearIndex_def typedGet_def typedSet_def particleAt_def Let_def)

text \<open>
  Claim C9 (as amended). After one frame update of a running application that holds
  no gradient field and whose stored half intensity is half of its intensity \<open>I > 0\<close>
  (as in every state the constructor or the message handler leaves, by the two lemmas
  above), for every coordinate \<open>j\<close> of the particle array, with \<open>r\<close> the draw of
  \<open>Math.random\<close> made for that coordinate (the draw number \<open>k + j\<close>):
  \<^item> a coordinate that holds the number \<open>p\<close> holds \<open>p + (r * I - I / 2)\<close> after the
    frame, and a coordinate that holds \<open>NaN\<close> still holds \<open>NaN\<close>;
  \<^item> \<open>r\<close> is in \<open>[0, 1)\<close>, so the displacement \<open>r * I - I / 2\<close> is in
    \<open>[-I / 2, I / 2)\<close> and its absolute value is at most \<open>I\<close>: the bound
    \<open>|newPos - oldPos| \<le> I\<close> holds for every coordinate that is not \<open>NaN\<close>;
  \<^item> every displacement \<open>d\<close> of \<open>[-I / 2, I / 2)\<close> is the one of some random source;
  \<^item> the draws whose displacement lies in \<open>[c, d)\<close> are those of the interval
    \<open>[(c + I / 2) / I, (d + I / 2) / I)\<close>, of length \<open>(d - c) / I\<close>: the displacement
    of a uniform draw is uniform;
  \<^item> the mean displacement of a uniform draw is \<open>0\<close>: the averages of
    \<open>r * I - I / 2\<close> over the \<open>N\<close> equidistant draws \<open>0, 1 / N, ..., (N - 1) / N\<close> (the
    Riemann sums of its integral over \<open>[0, 1)\<close>) tend to \<open>0\<close>.
\<close>

theorem jitter_only_displacement:
  fixes a :: chladniApp and rgb :: "real \<Rightarrow> real \<Rightarrow> real \<Rightarrow> 32 word"
    and rnd :: randomSource and k j :: nat
  assumes run: "app_isRunning a"
    and nofield: "app_gradients a = None"
    and half: "app_halfVibrationIntensity a = app_vibrationIntensity a / 2"
    and pos: "0 < app_vibrationIntensity a"
    and j: "j < length (app_particles a)"
  defines "I \<equiv> app_vibrationIntensity a"
    and "r \<equiv> Rep_randomNumber (rnd (k + j))"
  shows "app_particles (fst (update rgb rnd (a, k))) ! j =
           (case app_particles a ! j of
              Num p \<Rightarrow> Num (p + (r * I - I / 2))
            | NaN \<Rightarrow> NaN) \<and>
         0 \<le> r \<and> r < 1 \<and>
         - (I / 2) \<le> r * I - I / 2 \<and> r * I - I / 2 < I / 2 \<and> \<bar>r * I - I / 2\<bar> \<le> I \<and>
         (app_particles a ! j \<noteq> NaN \<longrightarrow>
            displacementWithin (app_particles a ! j)
              (app_particles (fst (update rgb rnd (a, k))) ! j) I) \<and>
         (\<forall>d. - (I / 2) \<le> d \<and> d < I / 2 \<longrightarrow>
              (\<exists>rnd'. app_particles (fst (update rgb rnd' (a, k))) ! j =
                        (case app_particles a ! j of
                           Num p \<Rightarrow> Num (p + d)
                         | NaN \<Rightarrow> NaN))) \<and>
         (\<forall>c d. {s. c \<le> s * I - I / 2 \<and> s * I - I / 2 < d} =
                 {(c + I / 2) / I ..< (d + I / 2) / I}) \<and>
         (\<lambda>N. (\<Sum>i<N. (real i / real N) * I - I / 2) / real N) \<longlonglongrightarrow> 0"
proof -
  have new: "app_particles (fst (update rgb rnd' (a, k))) ! j =
           (case app_particles a ! j of
              Num p \<Rightarrow> Num (p + (Rep_randomNumber (rnd' (k + j)) * I - I / 2))
            | NaN \<Rightarrow> NaN)" for rnd'
    using no_field_coordinate [OF run nofield j, of rgb rnd' k]
    by (simp add: half jitter_def I_def split: number.splits)
  have 1: "app_particles (fst (update rgb rnd (a, k))) ! j =
           (case app_particles a ! j of
              Num p \<Rightarrow> Num (p + (r * I - I / 2))
            | NaN \<Rightarrow> NaN)"
    unfolding r_def by (rule new)
  have 2: "0 \<le> r" "r < 1"
    using Rep_randomNumber [of "rnd (k + j)"] by (simp_all add: r_def)
  have 3: "- (I / 2) \<le> r * I - I / 2" "r * I - I / 2 < I / 2"
    using jitter_range [OF pos, of "rnd (k + j)"] by (simp_all add: jitter_def I_def r_def)
  have "0 < I" using pos by (simp add: I_def)
  with 3 have 4: "\<bar>r * I - I / 2\<bar> \<le> I" by linarith
  have 5: "app_particles a ! j \<noteq> NaN \<longrightarrow>
            displacementWithin (app_particles a ! j)
              (app_particles (fst (update rgb rnd (a, k))) ! j) I"
    using 1 4 by (simp add: displacementWithin_def split: number.splits)
  have 6: "\<forall>d. - (I / 2) \<le> d \<and> d < I / 2 \<longrightarrow>
              (\<exists>rnd'. app_particles (fst (update rgb rnd' (a, k))) ! j =
                        (case app_particles a ! j of
                           Num p \<Rightarrow> Num (p + d)
                         | NaN \<Rightarrow> NaN))"
  proof (intro allI impI)
    fix d assume d: "- (I / 2) \<le> d \<and> d < I / 2"
    have "0 < I" using pos by (simp add: I_def)
    then have "Rep_randomNumber (randomOf ((d + I / 2) / I)) * I - I / 2 = d"
      using d by (intro jitter_onto) simp_all
    then have "app_particles (fst (update rgb (\<lambda>i. randomOf ((d + I / 2) / I)) (a, k))) ! j =
                        (case app_particles a ! j of
                           Num p \<Rightarrow> Num (p + d)
                         | NaN \<Rightarrow> NaN)"
      using new [of "\<lambda>i. randomOf ((d + I / 2) / I)"] by (simp split: number.splits)
    then show "\<exists>rnd'. app_particles (fst (update rgb rnd' (a, k))) ! j =
                        (case app_particles a ! j of
                           Num p \<Rightarrow> Num (p + d)
                         | NaN \<Rightarrow> NaN)" by blast
  qed
  have 7: "\<forall>c d. {s. c \<le> s * I - I / 2 \<and> s * I - I / 2 < d} =
                 {(c + I / 2) / I ..< (d + I / 2) / I}"
    using jitter_preimage [of I] pos by (simp add: I_def)
  have 8: "(\<lambda>N. (\<Sum>i<N. (real i / real N) * I - I / 2) / real N) \<longlonglongrightarrow> 0"
    using jitter_mean [of I] by (simp only: jitter_def)
  from 1 2 3 4 5 6 7 8 show ?thesis by blast
qed

theorem jitter_only_displacement_witness:
  "app_particles (fst (update (\<lambda>r g b. 0) (\<lambda>i. randomOf (3 / 4))
       (newChladniApp 4 4 [Num 1, Num 2] [10] 7 0, 0))) ! 1 = Num (5 / 2) \<and>
   displacementWithin (Num 2) (Num (5 / 2)) 2 \<and>
   (\<exists>rnd'. app_particles (fst (update (\<lambda>r g b. 0) rnd'
       (newChladniApp 4 4 [Num 1, Num 2] [10] 7 0, 0))) ! 1 = Num 1) \<and>
   {s :: real. 0 \<le> s * 2 - 2 / 2 \<and> s * 2 - 2 / 2 < 1 / 2} = {1 / 2 ..< 3 / 4} \<and>
   (\<lambda>N. (\<Sum>i<N. (real i / real N) * 2 - 2 / 2) / real N) \<longlonglongrightarrow> 0 \<and>
   app_particles (fst (update (\<lambda>r g b. 0) driftSource (driftedApp, 4))) ! 0 = NaN"
proof -
  let ?a = "newChladniApp 4 4 [Num 1, Num 2] [10] 7 0"
  have a: "app_isRunning ?a" "app_gradients ?a = None"
    "app_halfVibrationIntensity ?a = app_vibrationIntensity ?a / 2"
    "0 < app_vibrationIntensity ?a" "1 < length (app_particles ?a)"
    "app_vibrationIntensity ?a = 2" "app_particles ?a ! Suc 0 = Num 2"
    by (simp_all add: newChladniApp_def DEFAULT_RANDOM_VIBRATION_INTENSITY_def)
  note T = jitter_only_displacement [OF a(1-5), of "\<lambda>r g b. 0" "\<lambda>i. randomOf (3 / 4)" 0]
  have r: "Rep_randomNumber (randomOf (3 / 4)) = 3 / 4" by (simp add: randomOf.rep_eq)
  have 1: "app_particles (fst (update (\<lambda>r g b. 0) (\<lambda>i. randomOf (3 / 4)) (?a, 0))) ! 1
             = Num (5 / 2)"
    using T [THEN conjunct1] by (simp add: a(6,7) r)
  have 2: "displacementWithin (Num 2) (Num (5 / 2)) 2"
    using T [THEN conjunct2, THEN conjunct2, THEN conjunct2, THEN conjunct2, THEN conjunct2,
             THEN conjunct2, THEN conjunct1]
    unfolding 1 by (simp add: a(6,7))
  have 3: "\<exists>rnd'. app_particles (fst (update (\<lambda>r g b. 0) rnd' (?a, 0))) ! 1 = Num 1"
    using T [THEN conjunct2, THEN conjunct2, THEN conjunct2, THEN conjunct2, THEN conjunct2,
             THEN conjunct2, THEN conjunct2, THEN conjunct1, rule_format, of "- 1"]
    by (simp add: a(6,7))
  have 4: "{s :: real. 0 \<le> s * 2 - 2 / 2 \<and> s * 2 - 2 / 2 < 1 / 2} = {1 / 2 ..< 3 / 4}"
    using T [THEN conjunct2, THEN conjunct2, THEN conjunct2, THEN conjunct2, THEN conjunct2,
             THEN conjunct2, THEN conjunct2, THEN conjunct2, THEN conjunct1, rule_format,
             of 0 "1 / 2"]
    by (simp add: a(6))
  have 5: "(\<lambda>N. (\<Sum>i<N. (real i / real N) * 2 - 2 / 2) / real N) \<longlonglongrightarrow> 0"
    using T [THEN conjunct2, THEN conjunct2, THEN conjunct2, THEN conjunct2, THEN conjunct2,
             THEN conjunct2, THEN conjunct2, THEN conjunct2, THEN conjunct2]
    by (simp add: a(6))
  have b: "app_isRunning driftedApp" "app_gradients driftedApp = None"
    "app_halfVibrationIntensity driftedApp = app_vibrationIntensity driftedApp / 2"
    "0 < app_vibrationIntensity driftedApp" "0 < length (app_particles driftedApp)"
    "app_particles driftedApp ! 0 = NaN"
    by (simp_all add: driftedApp_eq)
  have 6: "app_particles (fst (update (\<lambda>r g b. 0) driftSource (driftedApp, 4))) ! 0 = NaN"
    using jitter_only_displacement [OF b(1-5), of "\<lambda>r g b. 0" driftSource 4, THEN conjunct1]
    by (simp add: b(6))
  from 1 2 3 4 5 6 show ?thesis by blast
qed

text \<open>
  Claim C9 as stated fails for the coordinates that hold \<open>NaN\<close>, which the frame loop
  itself produces. In the second example the particle starts at \<open>(2, 1 / 5)\<close>, inside the
  grid. The first frame, with the field held, moves it to \<open>(2, -1)\<close>; the second frame
  samples the gradient array at the index \<open>-6\<close>, reads \<open>undefined\<close> and stores
  \<open>(NaN, NaN)\<close>. After the rest round message the application holds no field, and the
  next frame leaves both coordinates \<open>NaN\<close>: on neither axis is
  \<open>|newPos - oldPos| \<le> intensity\<close> true.
\<close>

theorem reachable_NaN_particle_counterexample:
  "inGrid (app_width driftStartApp) (app_height driftStartApp)
     (particleAt (app_particles driftStartApp) 0)
     (particleAt (app_particles driftStartApp) 1) \<and>
   app_particles (fst (update (\<lambda>r g b. 0) driftSource (driftStartApp, 0)))
     = [Num 2, Num (- 1)] \<and>
   app_particles (fst (update (\<lambda>r g b. 0) driftSource
                         (update (\<lambda>r g b. 0) driftSource (driftStartApp, 0))))
     = [NaN, NaN] \<and>
   app_isRunning driftedApp \<and> app_gradients driftedApp = None \<and>
   app_vibrationIntensity driftedApp = 9 / 2 \<and>
   app_halfVibrationIntensity driftedApp = app_vibrationIntensity driftedApp / 2 \<and>
   app_particles driftedApp = [NaN, NaN] \<and>
   app_particles (fst (update (\<lambda>r g b. 0) driftSource (driftedApp, 4))) = [NaN, NaN] \<and>
   \<not> displacementWithin (app_particles driftedApp ! 0)
       (app_particles (fst (update (\<lambda>r g b. 0) driftSource (driftedApp, 4))) ! 0)
       (app_vibrationIntensity driftedApp) \<and>
   \<not> displacementWithin (app_particles driftedApp ! 1)
       (app_particles (fst (update (\<lambda>r g b. 0) driftSource (driftedApp, 4))) ! 1)
       (app_vibrationIntensity driftedApp)"
  unfolding driftedApp_frame driftStartApp_second_frame
  unfolding driftStartApp_frame
  by (simp add: driftedApp_eq driftStartApp_eq inGrid_def particleAt_def typedGet_def
      displacementWithin_def)


lemma moveParticle_NaN_y: "snd (moveParticle grads w vI half x NaN r1 r2) = NaN"
  by (simp add: moveParticle_def split: option.splits prod.splits)

lemma final_position:
  fixes a :: chladniApp and rgb :: "real \<Rightarrow> real \<Rightarrow> real \<Rightarrow> 32 word"
    and rnd :: randomSource and k m :: nat
  assumes run: "app_isRunning a" and m: "2 * m < length (app_particles a)"
  shows "particleAt (app_particles (fst (update rgb rnd (a, k)))) (2 * m) =
           fst (movedParticle rnd a k m)"
    and "particleAt (app_particles (fst (update rgb rnd (a, k)))) (2 * m + 1) =
           snd (movedParticle rnd a k m)"
proof -
  let ?ps' = "app_particles (fst (update rgb rnd (a, k)))"
  have len: "length ?ps' = length (app_particles a)"
    using update_running(1) [OF run] .
  show "particleAt ?ps' (2 * m) = fst (movedParticle rnd a k m)"
    using update_running(3) [OF run m, of rgb rnd k] m len by (simp add: particleAt_nth)
  show "particleAt ?ps' (2 * m + 1) = snd (movedParticle rnd a k m)"
  proof (cases "2 * m + 1 < length (app_particles a)")
    case True
    then show ?thesis
      using update_running(3) [OF run True, of rgb rnd k] len by (simp add: particleAt_nth)
  next
    case False
    then have "particleAt ?ps' (2 * m + 1) = NaN" "particleAt (app_particles a) (2 * m + 1) = NaN"
      using len by (simp_all add: particleAt_out)
    then show ?thesis by (simp add: movedParticle_def moveParticle_NaN_y)
  qed
qed

text \<open>
  Claim C4 (as amended). The frame loop compares no coordinate with the bounds of the
  grid. For the particle number \<open>m\<close> of a running application, with \<open>(x, y)\<close> its
  position before the frame and \<open>(x', y')\<close> after it:
  \<^item> whenever the linear index \<open>round(y') * width + round(x')\<close> is an index of the
    framebuffer, that cell holds the particle colour after the frame, also when
    \<open>round(x')\<close> is outside \<open>[0, width)\<close>;
  \<^item> a cell that is the linear index of no particle keeps the colour of the fill, so
    a particle whose linear index is outside the framebuffer, or \<open>NaN\<close>, writes nothing;
  \<^item> with a gradient field held, the sample is the pair stored at twice the linear
    index of \<open>(x, y)\<close>: when that pair is inside the gradient array the particle is
    displaced by it (times \<open>0.4\<close>) and by the jitter, wherever \<open>(x, y)\<close> lies, and when
    the index is outside the array, or \<open>NaN\<close>, both coordinates become \<open>NaN\<close>. An
    invalid sample is never replaced by the behaviour without a field.
\<close>

theorem unguarded_raster_and_sample:
  fixes a :: chladniApp and rgb :: "real \<Rightarrow> real \<Rightarrow> real \<Rightarrow> 32 word"
    and rnd :: randomSource and k m :: nat
  assumes run: "app_isRunning a" and m: "2 * m < length (app_particles a)"
  defines "a' \<equiv> fst (update rgb rnd (a, k))"
  defines "x \<equiv> particleAt (app_particles a) (2 * m)"
    and "y \<equiv> particleAt (app_particles a) (2 * m + 1)"
  defines "x' \<equiv> particleAt (app_particles a') (2 * m)"
    and "y' \<equiv> particleAt (app_particles a') (2 * m + 1)"
  defines "jx \<equiv> jitter (Rep_randomNumber (rnd (k + 2 * m)))
                   (app_vibrationIntensity a) (app_halfVibrationIntensity a)"
    and "jy \<equiv> jitter (Rep_randomNumber (rnd (k + 2 * m + 1)))
                   (app_vibrationIntensity a) (app_halfVibrationIntensity a)"
  shows "(\<forall>c < length (app_buffer a).
            linearIndex (app_width a) x' y' = Some (int c) \<longrightarrow>
            app_buffer a' ! c = particleColor a) \<and>
         (\<forall>c < length (app_buffer a).
            (\<forall>i. 2 * i < length (app_particles a) \<longrightarrow>
                 linearIndex (app_width a) (particleAt (app_particles a') (2 * i))
                   (particleAt (app_particles a') (2 * i + 1)) \<noteq> Some (int c)) \<longrightarrow>
            app_buffer a' ! c = fillBuffer rgb a ! c) \<and>
         length (app_buffer a') = length (app_buffer a) \<and>
         (\<forall>g c px py.
            app_gradients a = Some g \<and> x = Num px \<and> y = Num py \<and>
            linearIndex (app_width a) x y = Some c \<and> 0 \<le> c \<and> 2 * c + 1 < int (length g) \<longrightarrow>
            x' = Num (px + MAX_GRADIENT_INTENSITY * g ! nat (2 * c) + jx) \<and>
            y' = Num (py + MAX_GRADIENT_INTENSITY * g ! nat (2 * c + 1) + jy)) \<and>
         (\<forall>g. app_gradients a = Some g \<and>
              (case linearIndex (app_width a) x y of
                 None \<Rightarrow> True
               | Some c \<Rightarrow> c < 0 \<or> int (length g) \<le> 2 * c) \<longrightarrow>
            x' = NaN \<and> y' = NaN)"
proof -
  let ?n = "length (app_particles a)"
  have fin: "x' = fst (movedParticle rnd a k m)" "y' = snd (movedParticle rnd a k m)"
    using final_position [OF run m, of rgb rnd k] by (simp_all add: x'_def y'_def a'_def)
  have idx: "(\<exists>i < (?n + 1) div 2. P i) \<longleftrightarrow> (\<exists>i. 2 * i < ?n \<and> P i)" for P
  proof -
    have "i < (?n + 1) div 2 \<longleftrightarrow> 2 * i < ?n" for i by arith
    then show ?thesis by simp
  qed
  have buf: "app_buffer a' ! c =
           (if \<exists>i. 2 * i < ?n \<and>
                 linearIndex (app_width a) (fst (movedParticle rnd a k i))
                   (snd (movedParticle rnd a k i)) = Some (int c)
            then particleColor a else fillBuffer rgb a ! c)" if "c < length (app_buffer a)" for c
    using update_running(4) [OF run that, of rgb rnd k] unfolding a'_def idx .
  have 1: "\<forall>c < length (app_buffer a).
            linearIndex (app_width a) x' y' = Some (int c) \<longrightarrow>
            app_buffer a' ! c = particleColor a"
    using buf m fin by auto
  have 2: "\<forall>c < length (app_buffer a).
            (\<forall>i. 2 * i < length (app_particles a) \<longrightarrow>
                 linearIndex (app_width a) (particleAt (app_particles a') (2 * i))
                   (particleAt (app_particles a') (2 * i + 1)) \<noteq> Some (int c)) \<longrightarrow>
            app_buffer a' ! c = fillBuffer rgb a ! c"
  proof (intro allI impI)
    fix c assume c: "c < length (app_buffer a)"
      and no: "\<forall>i. 2 * i < length (app_particles a) \<longrightarrow>
                 linearIndex (app_width a) (particleAt (app_particles a') (2 * i))
                   (particleAt (app_particles a') (2 * i + 1)) \<noteq> Some (int c)"
    have "\<not> (\<exists>i. 2 * i < ?n \<and>
                 linearIndex (app_width a) (fst (movedParticle rnd a k i))
                   (snd (movedParticle rnd a k i)) = Some (int c))"
    proof
      assume "\<exists>i. 2 * i < ?n \<and>
                 linearIndex (app_width a) (fst (movedParticle rnd a k i))
                   (snd (movedParticle rnd a k i)) = Some (int c)"
      then obtain i where i: "2 * i < ?n" and
        e: "linearIndex (app_width a) (fst (movedParticle rnd a k i))
                   (snd (movedParticle rnd a k i)) = Some (int c)" by blast
      from no i have "linearIndex (app_width a) (particleAt (app_particles a') (2 * i))
                   (particleAt (app_particles a') (2 * i + 1)) \<noteq> Some (int c)" by blast
      with final_position [OF run i, of rgb rnd k] e show False
        by (simp add: a'_def)
    qed
    then show "app_buffer a' ! c = fillBuffer rgb a ! c" using buf [OF c] by auto
  qed
  have 3: "length (app_buffer a') = length (app_buffer a)"
    using update_running(2) [OF run] by (simp add: a'_def)
  have 4: "\<forall>g c px py.
            app_gradients a = Some g \<and> x = Num px \<and> y = Num py \<and>
            linearIndex (app_width a) x y = Some c \<and> 0 \<le> c \<and> 2 * c + 1 < int (length g) \<longrightarrow>
            x' = Num (px + MAX_GRADIENT_INTENSITY * g ! nat (2 * c) + jx) \<and>
            y' = Num (py + MAX_GRADIENT_INTENSITY * g ! nat (2 * c + 1) + jy)"
    unfolding fin movedParticle_def moveParticle_def obtainGradientAt_def typedGet_def
      x_def [symmetric] y_def [symmetric] jx_def jy_def
    by (auto simp: Let_def mult.commute)
  have 5: "\<forall>g. app_gradients a = Some g \<and>
              (case linearIndex (app_width a) x y of
                 None \<Rightarrow> True
               | Some c \<Rightarrow> c < 0 \<or> int (length g) \<le> 2 * c) \<longrightarrow>
            x' = NaN \<and> y' = NaN"
    unfolding fin movedParticle_def moveParticle_def obtainGradientAt_def typedGet_def
      x_def [symmetric] y_def [symmetric]
    by (auto simp: Let_def split: option.splits)
  from 1 2 3 4 5 show ?thesis by blast
qed


lemma Rep_randomOf_half: "Rep_randomNumber (randomOf (1 / 2)) = 1 / 2"
  by (simp add: randomOf.rep_eq)

lemma strayParticleApp_eq:
  "strayParticleApp =
     \<lparr>app_buffer = replicate 25 0,
      app_vibrationValues = Some (replicate 25 (1 / 2)),
      app_gradients = Some ((replicate 50 0)[16 := 1]),
      app_vibrationIntensity = 3, app_halfVibrationIntensity = 3 / 2,
      app_debugVibration = False, app_isRunning = True, app_width = 5,
      app_height = 5, app_particles = [Num (- 2), Num 2],
      app_nonResonantColor = 7, app_colorIndex = Some 1,
      app_colors = [10, 20], app_selectedColor = Some 20,
      app_backgroundColor = 0, app_fpsCount = 0\<rparr>"
  by (simp add: strayParticleApp_def onMessageFromWorker_def newChladniApp_def Let_def
      DEFAULT_RANDOM_VIBRATION_INTENSITY_def)

lemma strayParticleApp_frame:
  "fst (update (\<lambda>r g b. 0) (\<lambda>i. randomOf (1 / 2)) (strayParticleApp, 0)) =
     strayParticleApp
       \<lparr>app_buffer := (replicate 25 0)[8 := 20],
        app_particles := [Num (- (8 / 5)), Num 2],
        app_fpsCount := 1\<rparr>"
  by (simp add: strayParticleApp_eq update_def fillBuffer_def particleColor_def
      particleIndices_def updateParticle_def mathRandom_def moveParticle_def
      obtainGradientAt_def linearIndex_def typedGet_def typedSet_def particleAt_def
      jitter_def MAX_GRADIENT_INTENSITY_def Let_def Rep_randomOf_half)

lemma strayParticleApp_frame_no_field:
  "fst (update (\<lambda>r g b. 0) (\<lambda>i. randomOf (1 / 2))
          (strayParticleApp\<lparr>app_gradients := None\<rparr>, 0)) =
     strayParticleApp
       \<lparr>app_gradients := None,
        app_buffer := (replicate 25 0)[8 := 7],
        app_particles := [Num (- 2), Num 2],
        app_fpsCount := 1\<rparr>"
  by (simp add: strayParticleApp_eq update_def fillBuffer_def particleColor_def
      particleIndices_def updateParticle_def mathRandom_def moveParticle_def
      obtainGradientAt_def linearIndex_def typedGet_def typedSet_def particleAt_def
      jitter_def MAX_GRADIENT_INTENSITY_def Let_def Rep_randomOf_half)

text \<open>
  Claim C4 as stated fails. In the example state the particle at \<open>(-2, 2)\<close> is outside
  the \<open>5\<close> by \<open>5\<close> grid before and after the frame (the draws \<open>1 / 2\<close> give the
  jitter \<open>0\<close>). The frame nevertheless draws it into the framebuffer cell \<open>8\<close>, the cell
  \<open>(3, 1)\<close>, which the fill had set to the background colour \<open>0\<close>, and moves it by the
  gradient stored for that cell: to \<open>x = -8 / 5\<close>, where the frame without a field
  leaves it at \<open>x = -2\<close>.
\<close>

theorem out_of_grid_particle_counterexample:
  "\<not> inGrid (app_width strayParticleApp) (app_height strayParticleApp)
        (particleAt (app_particles strayParticleApp) 0)
        (particleAt (app_particles strayParticleApp) 1) \<and>
   \<not> inGrid (app_width strayParticleApp) (app_height strayParticleApp)
        (particleAt (app_particles
           (fst (update (\<lambda>r g b. 0) (\<lambda>i. randomOf (1 / 2)) (strayParticleApp, 0)))) 0)
        (particleAt (app_particles
           (fst (update (\<lambda>r g b. 0) (\<lambda>i. randomOf (1 / 2)) (strayParticleApp, 0)))) 1) \<and>
   fillBuffer (\<lambda>r g b. 0) strayParticleApp ! 8 = 0 \<and>
   app_buffer (fst (update (\<lambda>r g b. 0) (\<lambda>i. randomOf (1 / 2)) (strayParticleApp, 0))) ! 8 = 20 \<and>
   app_particles (fst (update (\<lambda>r g b. 0) (\<lambda>i. randomOf (1 / 2)) (strayParticleApp, 0)))
     = [Num (- (8 / 5)), Num 2] \<and>
   app_particles (fst (update (\<lambda>r g b. 0) (\<lambda>i. randomOf (1 / 2))
                         (strayParticleApp\<lparr>app_gradients := None\<rparr>, 0)))
     = [Num (- 2), Num 2]"
  unfolding strayParticleApp_frame strayParticleApp_frame_no_field
  by (simp add: strayParticleApp_eq inGrid_def particleAt_def typedGet_def fillBuffer_def)

theorem unguarded_raster_and_sample_witness:
  "app_buffer (fst (update (\<lambda>r g b. 0) (\<lambda>i. randomOf (1 / 2)) (strayParticleApp, 0))) ! 8
     = particleColor strayParticleApp \<and>
   particleAt (app_particles
      (fst (update (\<lambda>r g b. 0) (\<lambda>i. randomOf (1 / 2)) (strayParticleApp, 0)))) 0
     = Num (- 2 + MAX_GRADIENT_INTENSITY * ((replicate 50 0)[16 := 1]) ! 16 +
            jitter (1 / 2) 3 (3 / 2))"
proof -
  let ?a = strayParticleApp
  let ?a' = "fst (update (\<lambda>r g b. 0) (\<lambda>i. randomOf (1 / 2)) (strayParticleApp, 0))"
  have run: "app_isRunning ?a" and m: "2 * 0 < length (app_particles ?a)"
    by (simp_all add: strayParticleApp_eq)
  note T = unguarded_raster_and_sample [OF run m, of "\<lambda>r g b. 0" "\<lambda>i. randomOf (1 / 2)" 0]
  have new: "linearIndex (app_width ?a) (particleAt (app_particles ?a') (2 * 0))
               (particleAt (app_particles ?a') (2 * 0 + 1)) = Some (int 8)"
    unfolding strayParticleApp_frame
    by (simp add: strayParticleApp_eq particleAt_def typedGet_def linearIndex_def)
  have "8 < length (app_buffer ?a)" by (simp add: strayParticleApp_eq)
  with T [THEN conjunct1] new have 1: "app_buffer ?a' ! 8 = particleColor ?a" by blast
  have old: "app_gradients ?a = Some ((replicate 50 0)[16 := 1]) \<and>
        particleAt (app_particles ?a) (2 * 0) = Num (- 2) \<and>
        particleAt (app_particles ?a) (2 * 0 + 1) = Num 2 \<and>
        linearIndex (app_width ?a) (particleAt (app_particles ?a) (2 * 0))
           (particleAt (app_particles ?a) (2 * 0 + 1)) = Some 8 \<and>
        (0::int) \<le> 8 \<and> 2 * 8 + 1 < int (length ((replicate 50 (0::real))[16 := 1]))"
    by (simp add: strayParticleApp_eq particleAt_def typedGet_def linearIndex_def)
  note T4 = T [THEN conjunct2, THEN conjunct2, THEN conjunct2, THEN conjunct1]
  from T4 [rule_format, OF old, THEN conjunct1]
  have 2: "particleAt (app_particles ?a') 0 =
      Num (- 2 + MAX_GRADIENT_INTENSITY * ((replicate 50 0)[16 := 1]) ! 16 + jitter (1 / 2) 3 (3 / 2))"
    by (simp add: Rep_randomOf_half strayParticleApp_eq)
  from 1 2 show ?thesis by simp
qed



section \<open>Properties of the vibration field\<close>

lemma fold_typedSet_length [simp]:
  "length (fold (\<lambda>x a. typedSet a (i x) (f x)) xs a) = length a"
  by (induction xs arbitrary: a) simp_all

lemma fold_row_nth:
  assumes "j < length a"
  shows "fold (\<lambda>x a. typedSet a (Some (B + int x)) (f x)) [0..<n] a ! j =
           (if B \<le> int j \<and> int j < B + int n then f (nat (int j - B)) else a ! j)"
  using assms
proof (induction n)
  case 0
  then show ?case by auto
next
  case (Suc n)
  have "B + int n = int j \<Longrightarrow> nat (int j - B) = n" by arith
  with Suc show ?case by (auto simp: typedSet_nth)
qed

lemma fold_rows_length [simp]:
  "length (fold (\<lambda>y. fold (\<lambda>x a. typedSet a (i x y) (f x y)) xs) ys a) = length a"
  by (induction ys arbitrary: a) simp_all

lemma fold_rows_nth:
  assumes "j < length a"
  shows "fold (\<lambda>y. fold (\<lambda>x a. typedSet a (Some (int y * int w + int x)) (f x y)) [0..<w]) [0..<m] a ! j =
           (if j < m * w then f (j mod w) (j div w) else a ! j)"
  using assms
proof (induction m)
  case 0
  then show ?case by simp
next
  case (Suc m)
  let ?prev = "fold (\<lambda>y. fold (\<lambda>x a. typedSet a (Some (int y * int w + int x)) (f x y)) [0..<w]) [0..<m] a"
  have len: "j < length ?prev" using Suc.prems by simp
  have row: "fold (\<lambda>x a. typedSet a (Some (int m * int w + int x)) (f x m)) [0..<w] ?prev ! j =
           (if int m * int w \<le> int j \<and> int j < int m * int w + int w
            then f (nat (int j - int m * int w)) m else ?prev ! j)"
    using fold_row_nth [OF len, of "int m * int w" "\<lambda>x. f x m" w] .
  have iff: "(int m * int w \<le> int j \<and> int j < int m * int w + int w) \<longleftrightarrow>
             (m * w \<le> j \<and> j < m * w + w)"
    by (metis (mono_tags) of_nat_add of_nat_less_iff of_nat_mult of_nat_le_iff)
  show ?case
  proof (cases "m * w \<le> j \<and> j < m * w + w")
    case True
    then have d: "j div w = m"
      by (simp add: div_nat_eqI mult.commute)
    have "j mod w = j - m * w" using d by (metis minus_div_mult_eq_mod)
    moreover have "nat (int j - int m * int w) = j - m * w"
      by (metis nat_int of_nat_diff of_nat_mult True nat_minus_as_int)
    ultimately show ?thesis using True row iff d by simp
  next
    case False
    then show ?thesis using row iff Suc.IH [OF Suc.prems] by auto
  qed
qed


lemma vibrationValue_abs:
  "vibrationValue M N L TX TY x y =
     \<bar>cos (N * (real x * L + TX)) * cos (M * (real y * L + TY)) -
      cos (M * (real x * L + TX)) * cos (N * (real y * L + TY))\<bar> / 2"
proof -
  have "v / 2 * sgn (v / 2) = \<bar>v\<bar> / 2" for v :: real
    using abs_sgn [of "v / 2"] by simp
  then show ?thesis by (simp add: vibrationValue_def Let_def)
qed

lemma computeVibrationValues_length:
  "length (fst (computeVibrationValues p rnd k w h)) = w * h"
  by (simp add: computeVibrationValues_def mathRandom_def Let_def)

lemma computeVibrationValues_nth:
  assumes "j < w * h"
  shows "fst (computeVibrationValues p rnd k w h) ! j =
           vibrationValue (cp_m p) (cp_n p) (cp_l p)
             (Rep_randomNumber (rnd k) * real h) (Rep_randomNumber (rnd (Suc k)) * real h)
             (j mod w) (j div w)"
proof -
  have "j < length (replicate (w * h) (0::real))" using assms by simp
  from fold_rows_nth [OF this, of w _ h] assms show ?thesis
    by (simp add: computeVibrationValues_def mathRandom_def Let_def mult.commute)
qed

lemma typedGet_nat:
  "typedGet a (Some (int j)) = (if j < length a then Some (a ! j) else None)"
  by (simp add: typedGet_def)

lemma cell_index:
  fixes x y w h :: nat
  assumes "x < w" and "y < h"
  shows "y * w + x < w * h" and "(y * w + x) mod w = x" and "(y * w + x) div w = y"
proof -
  have "y * w + x < y * w + w" using assms by simp
  also have "\<dots> = (Suc y) * w" by simp
  also have "\<dots> \<le> h * w" using assms by (intro mult_le_mono1) simp
  finally show "y * w + x < w * h" by (simp add: mult.commute)
  show "(y * w + x) mod w = x" using assms by simp
  show "(y * w + x) div w = y" using assms by simp
qed

text \<open>
  Claim C2. For every cell \<open>(x, y)\<close> of the grid and all parameters \<open>m\<close>, \<open>n\<close>, \<open>l\<close>,
  the value \<open>computeVibrationValues\<close> stores is
  \<open>|cos(n * (x * l + phaseX)) * cos(m * (y * l + phaseY)) -
    cos(m * (x * l + phaseX)) * cos(n * (y * l + phaseY))| / 2\<close>,
  where \<open>phaseX\<close> and \<open>phaseY\<close> are the first two draws of the bake, each scaled by the
  height, the same for all cells and in \<open>[0, height)\<close>; every stored value is
  non-negative. (Numbers are reals: the rounding of the doubles and of the
  \<open>Float32Array\<close> cells is outside the model, and so is the distribution of the draws.)
\<close>

theorem vibration_value_formula:
  fixes p :: chladniParams and rnd :: randomSource and k w h x y :: nat
  assumes x: "x < w" and y: "y < h"
  defines "phaseX \<equiv> Rep_randomNumber (rnd k) * real h"
    and "phaseY \<equiv> Rep_randomNumber (rnd (k + 1)) * real h"
  shows "vibrationAt (fst (computeVibrationValues p rnd k w h)) w x y =
           Some (\<bar>cos (cp_n p * (real x * cp_l p + phaseX)) *
                  cos (cp_m p * (real y * cp_l p + phaseY)) -
                  cos (cp_m p * (real x * cp_l p + phaseX)) *
                  cos (cp_n p * (real y * cp_l p + phaseY))\<bar> / 2) \<and>
         0 \<le> phaseX \<and> phaseX < real h \<and> 0 \<le> phaseY \<and> phaseY < real h \<and>
         (\<forall>v \<in> set (fst (computeVibrationValues p rnd k w h)). 0 \<le> v)"
proof -
  let ?vib = "fst (computeVibrationValues p rnd k w h)"
  have "vibrationAt ?vib w x y =
          (if y * w + x < length ?vib then Some (?vib ! (y * w + x)) else None)"
    unfolding vibrationAt_def by (rule typedGet_nat)
  then have "vibrationAt ?vib w x y = Some (?vib ! (y * w + x))"
    using cell_index(1) [OF x y] by (simp add: computeVibrationValues_length)
  then have 1: "vibrationAt ?vib w x y =
           Some (\<bar>cos (cp_n p * (real x * cp_l p + phaseX)) *
                  cos (cp_m p * (real y * cp_l p + phaseY)) -
                  cos (cp_m p * (real x * cp_l p + phaseX)) *
                  cos (cp_n p * (real y * cp_l p + phaseY))\<bar> / 2)"
    using cell_index [OF x y]
    by (simp add: computeVibrationValues_nth vibrationValue_abs phaseX_def phaseY_def)
  have h: "0 < real h" using y by simp
  have r: "0 \<le> Rep_randomNumber r \<and> Rep_randomNumber r < 1" for r
    using Rep_randomNumber [of r] by simp
  have 2: "0 \<le> phaseX \<and> phaseX < real h \<and> 0 \<le> phaseY \<and> phaseY < real h"
    using r [of "rnd k"] r [of "rnd (k + 1)"] h
    by (simp add: phaseX_def phaseY_def mult_less_cancel_right2)
  have 3: "\<forall>v \<in> set ?vib. 0 \<le> v"
  proof
    fix v assume "v \<in> set ?vib"
    then obtain j where "j < length ?vib" "v = ?vib ! j" by (metis in_set_conv_nth)
    then show "0 \<le> v"
      by (simp add: computeVibrationValues_length computeVibrationValues_nth vibrationValue_abs)
  qed
  from 1 2 3 show ?thesis by blast
qed

theorem vibration_value_formula_witness:
  "vibrationAt (fst (computeVibrationValues \<lparr>cp_m = 1, cp_n = 2, cp_l = 1 / 25\<rparr>
                       (\<lambda>i. randomOf 0) 0 5 5)) 5 2 2 =
     Some (\<bar>cos (2 * (2 * (1 / 25))) * cos (2 * (1 / 25)) -
            cos (2 * (1 / 25)) * cos (2 * (2 * (1 / 25)))\<bar> / 2)"
  using vibration_value_formula
          [of 2 5 2 5 "\<lparr>cp_m = 1, cp_n = 2, cp_l = 1 / 25\<rparr>" "\<lambda>i. randomOf 0" 0, THEN conjunct1]
  by (simp add: randomOf.rep_eq)



section \<open>Properties of the gradient field\<close>

lemma shiftLeft1_small:
  assumes "0 \<le> i" and "i < 2 ^ 30"
  shows "shiftLeft1 i = 2 * i"
proof -
  have "push_bit 1 (word_of_int i :: 32 word) = word_of_int (2 * i)"
    by (simp add: push_bit_eq_mult)
  then have "shiftLeft1 i = (2 * i + 2 ^ 31) mod 2 ^ 32 - 2 ^ 31"
    unfolding shiftLeft1_def by (simp only: int_word_sint) simp
  moreover have "(2 * i + 2 ^ 31) mod 2 ^ 32 = 2 * i + 2 ^ 31"
    using assms by (intro mod_pos_pos_trivial) simp_all
  ultimately show ?thesis by simp
qed








lemma random_index:
  assumes "0 < n"
  shows "nat \<lfloor>Rep_randomNumber r * real n\<rfloor> < n"
proof -
  have r: "0 \<le> Rep_randomNumber r" "Rep_randomNumber r < 1"
    using Rep_randomNumber [of r] by simp_all
  have "Rep_randomNumber r * real n < 1 * real n"
    using r(2) assms by (intro mult_strict_right_mono) simp_all
  then have "\<lfloor>Rep_randomNumber r * real n\<rfloor> < int n" by (simp add: floor_less_iff)
  moreover have "0 \<le> \<lfloor>Rep_randomNumber r * real n\<rfloor>" using r(1) by simp
  ultimately show ?thesis by linarith
qed

lemma chosen_index_in_range:
  "cands \<noteq> [] \<Longrightarrow> nat \<lfloor>Rep_randomNumber (rnd k) * real (length cands)\<rfloor> < length cands"
  by (simp add: random_index)


lemma chooseGradient_calls: "k \<le> snd (chooseGradient cands rnd k)"
  by (simp add: chooseGradient_def mathRandom_def)



lemma gradientCell_eq:
  assumes "y * w + x < 2 ^ 30"
  shows "gradientCell vib w rnd x y (g, k) =
           (typedSet (typedSet g (Some (int (2 * (y * w + x))))
                        (fst (fst (cellOutcome vib w rnd x y k))))
              (Some (int (2 * (y * w + x) + 1))) (snd (fst (cellOutcome vib w rnd x y k))),
            snd (cellOutcome vib w rnd x y k))"
proof -
  have "int (y * w + x) < 2 ^ 30" using assms by (metis of_nat_less_iff of_nat_numeral of_nat_power)
  then have sh: "shiftLeft1 (int (y * w + x)) = 2 * int (y * w + x)"
    by (intro shiftLeft1_small) simp_all
  show ?thesis
    unfolding gradientCell_def cellOutcome_def Let_def sh
    by (simp add: ac_simps split: prod.splits option.splits)
qed

lemma typedSet_nat:
  "typedSet a (Some (int j)) v = (if j < length a then a[j := v] else a)"
  by (simp add: typedSet_def)

lemma cell_index_inj:
  fixes x y x' y' w :: nat
  assumes "x < w" and "x' < w" and "y * w + x = y' * w + x'"
  shows "x = x' \<and> y = y'"
proof -
  have "(y * w + x) mod w = x" "(y * w + x) div w = y" using assms(1) by simp_all
  moreover have "(y' * w + x') mod w = x'" "(y' * w + x') div w = y'" using assms(2) by simp_all
  ultimately show ?thesis using assms(3) by metis
qed

lemma gradientCell_frame:
  fixes x y w h :: nat
  assumes bound: "w * h \<le> 2 ^ 30" and c: "x < w" "y < h" and len: "length g = w * h * 2"
  shows "length (fst (gradientCell vib w rnd x y (g, k))) = length g"
    and "snd (gradientCell vib w rnd x y (g, k)) = snd (cellOutcome vib w rnd x y k)"
    and "fst (gradientCell vib w rnd x y (g, k)) ! (2 * (y * w + x)) =
           fst (fst (cellOutcome vib w rnd x y k))"
    and "fst (gradientCell vib w rnd x y (g, k)) ! (2 * (y * w + x) + 1) =
           snd (fst (cellOutcome vib w rnd x y k))"
    and "j \<noteq> 2 * (y * w + x) \<Longrightarrow> j \<noteq> 2 * (y * w + x) + 1 \<Longrightarrow>
           fst (gradientCell vib w rnd x y (g, k)) ! j = g ! j"
proof -
  have i: "y * w + x < w * h" using cell_index(1) [OF c] .
  then have small: "y * w + x < 2 ^ 30" using bound by simp
  have in1: "2 * (y * w + x) < length g" and in2: "2 * (y * w + x) + 1 < length g"
    using i len by simp_all
  note eq = gradientCell_eq [OF small, of vib rnd g k]
  show "length (fst (gradientCell vib w rnd x y (g, k))) = length g"
    unfolding eq by simp
  show "snd (gradientCell vib w rnd x y (g, k)) = snd (cellOutcome vib w rnd x y k)"
    unfolding eq by simp
  show "fst (gradientCell vib w rnd x y (g, k)) ! (2 * (y * w + x)) =
           fst (fst (cellOutcome vib w rnd x y k))"
    unfolding eq fst_conv typedSet_nat using in1 in2 by simp
  show "fst (gradientCell vib w rnd x y (g, k)) ! (2 * (y * w + x) + 1) =
           snd (fst (cellOutcome vib w rnd x y k))"
    unfolding eq fst_conv typedSet_nat using in1 in2 by simp
  show "fst (gradientCell vib w rnd x y (g, k)) ! j = g ! j"
    if "j \<noteq> 2 * (y * w + x)" "j \<noteq> 2 * (y * w + x) + 1"
    unfolding eq fst_conv typedSet_nat using in1 in2 that by simp
qed

lemma cellOutcome_calls: "k \<le> snd (cellOutcome vib w rnd x y k)"
  using chooseGradient_calls [of k "candidateGradients vib w x y" rnd]
  by (auto simp: cellOutcome_def split: prod.splits)


lemma fold_concat_cells: "fold f (concat xss) s = fold (fold f) xss s"
  by (induction xss arbitrary: s) simp_all

lemma computeGradients_cells:
  "computeGradients vib rnd k w h =
     fold (\<lambda>c. gradientCell vib w rnd (fst c) (snd c)) (interiorCells w h)
       (replicate (w * h * 2) 0, k)"
  by (simp add: computeGradients_def interiorCells_def fold_concat_cells fold_map comp_def)

lemma set_interiorCells:
  "set (interiorCells w h) = {(x, y). 1 \<le> x \<and> x + 1 < w \<and> 1 \<le> y \<and> y + 1 < h}"
proof -
  have "{1..<w - 1} = {x. 1 \<le> x \<and> x + 1 < w}" "{1..<h - 1} = {y. 1 \<le> y \<and> y + 1 < h}"
    by auto
  then show ?thesis by (auto simp: interiorCells_def)
qed

lemma cells_fold_frame:
  fixes w h :: nat
  assumes bound: "w * h \<le> 2 ^ 30"
    and cs: "\<forall>c \<in> set cs. fst c < w \<and> snd c < h"
    and len: "length g = w * h * 2"
  shows "length (fst (fold (\<lambda>c. gradientCell vib w rnd (fst c) (snd c)) cs (g, k))) = length g \<and>
         k \<le> snd (fold (\<lambda>c. gradientCell vib w rnd (fst c) (snd c)) cs (g, k)) \<and>
         (\<forall>j. (\<forall>c \<in> set cs. j \<noteq> 2 * (snd c * w + fst c) \<and> j \<noteq> 2 * (snd c * w + fst c) + 1) \<longrightarrow>
              fst (fold (\<lambda>c. gradientCell vib w rnd (fst c) (snd c)) cs (g, k)) ! j = g ! j)"
  using cs len
proof (induction cs arbitrary: g k)
  case Nil
  show ?case by simp
next
  case (Cons c cs)
  obtain g1 k1 where s1: "gradientCell vib w rnd (fst c) (snd c) (g, k) = (g1, k1)"
    by (cases "gradientCell vib w rnd (fst c) (snd c) (g, k)")
  have c: "fst c < w" "snd c < h" using Cons.prems(1) by simp_all
  note F = gradientCell_frame [OF bound c Cons.prems(2), where vib = vib and rnd = rnd and k = k]
  have len1: "length g1 = w * h * 2" using F(1) s1 Cons.prems(2) by simp
  have k1: "k \<le> k1" using F(2) s1 cellOutcome_calls [where k = k and vib = vib and w = w and rnd = rnd and x = "fst c" and y = "snd c"] by simp
  have cs': "\<forall>c \<in> set cs. fst c < w \<and> snd c < h" using Cons.prems(1) by simp
  note IH = Cons.IH [OF cs' len1, where k = k1]
  have fold: "fold (\<lambda>c. gradientCell vib w rnd (fst c) (snd c)) (c # cs) (g, k) =
              fold (\<lambda>c. gradientCell vib w rnd (fst c) (snd c)) cs (g1, k1)"
    by (simp add: s1)
  show ?case
    unfolding fold
  proof (intro conjI allI impI)
    show "length (fst (fold (\<lambda>c. gradientCell vib w rnd (fst c) (snd c)) cs (g1, k1))) = length g"
      using IH len1 Cons.prems(2) by simp
    show "k \<le> snd (fold (\<lambda>c. gradientCell vib w rnd (fst c) (snd c)) cs (g1, k1))"
      using IH k1 by simp
  next
    fix j
    assume j: "\<forall>c \<in> set (c # cs). j \<noteq> 2 * (snd c * w + fst c) \<and> j \<noteq> 2 * (snd c * w + fst c) + 1"
    then have "fst (fold (\<lambda>c. gradientCell vib w rnd (fst c) (snd c)) cs (g1, k1)) ! j = g1 ! j"
      using IH by simp
    moreover have "g1 ! j = g ! j"
      using F(5) [where j = j] s1 j by simp
    ultimately show "fst (fold (\<lambda>c. gradientCell vib w rnd (fst c) (snd c)) cs (g1, k1)) ! j = g ! j"
      by simp
  qed
qed



lemma recalculateGradients_parts:
  "fst (recalculateGradients p rnd k w h) = fst (computeVibrationValues p rnd k w h)"
  "fst (snd (recalculateGradients p rnd k w h)) =
     fst (computeGradients (fst (computeVibrationValues p rnd k w h)) rnd (k + 2) w h)"
  by (simp_all add: recalculateGradients_def computeVibrationValues_def mathRandom_def Let_def
      split: prod.splits)


lemma gradientAt_nth:
  assumes "2 * (y * w + x) + 1 < length g"
  shows "gradientAt g w x y = (Some (g ! (2 * (y * w + x))), Some (g ! (2 * (y * w + x) + 1)))"
proof -
  have "gradientAt g w x y =
          (typedGet g (Some (int (2 * (y * w + x)))), typedGet g (Some (int (2 * (y * w + x) + 1))))"
    by (simp add: gradientAt_def mult.commute)
  then show ?thesis unfolding typedGet_nat using assms by simp
qed

lemma computeGradients_length:
  fixes w h :: nat
  assumes "w * h \<le> 2 ^ 30"
  shows "length (fst (computeGradients vib rnd k w h)) = w * h * 2"
proof -
  have cs: "\<forall>c \<in> set (interiorCells w h). fst c < w \<and> snd c < h"
    by (auto simp: set_interiorCells)
  from cells_fold_frame [OF assms cs, where g = "replicate (w * h * 2) 0" and vib = vib and rnd = rnd and k = k]
  show ?thesis by (simp add: computeGradients_cells)
qed

lemma computeGradients_border:
  fixes w h x y :: nat
  assumes bound: "w * h \<le> 2 ^ 30" and c: "x < w" "y < h"
    and border: "x = 0 \<or> x = w - 1 \<or> y = 0 \<or> y = h - 1"
  shows "gradientAt (fst (computeGradients vib rnd k w h)) w x y = (Some 0, Some 0)"
proof -
  let ?g = "fst (computeGradients vib rnd k w h)"
  have cs: "\<forall>c \<in> set (interiorCells w h). fst c < w \<and> snd c < h"
    by (auto simp: set_interiorCells)
  have notin: "(x, y) \<notin> set (interiorCells w h)"
    using border c by (auto simp: set_interiorCells)
  have i: "y * w + x < w * h" using cell_index(1) [OF c] .
  have other: "\<forall>d \<in> set (interiorCells w h).
                 j \<noteq> 2 * (snd d * w + fst d) \<and> j \<noteq> 2 * (snd d * w + fst d) + 1"
      if "j = 2 * (y * w + x) \<or> j = 2 * (y * w + x) + 1" for j
  proof
    fix d assume d: "d \<in> set (interiorCells w h)"
    then have dw: "fst d < w" using cs by simp
    have "snd d * w + fst d \<noteq> y * w + x"
    proof
      assume "snd d * w + fst d = y * w + x"
      from cell_index_inj [OF dw c(1) this] have "d = (x, y)" by (cases d) simp
      then show False using d notin by simp
    qed
    then show "j \<noteq> 2 * (snd d * w + fst d) \<and> j \<noteq> 2 * (snd d * w + fst d) + 1"
      using that by presburger
  qed
  note Fr = cells_fold_frame [OF bound cs, where g = "replicate (w * h * 2) 0"
      and vib = vib and rnd = rnd and k = k, simplified, folded computeGradients_cells]
  have "?g ! (2 * (y * w + x)) = 0"
    using Fr other [of "2 * (y * w + x)"] i by simp
  moreover have "?g ! (2 * (y * w + x) + 1) = 0"
    using Fr other [of "2 * (y * w + x) + 1"] i by simp
  moreover have "2 * (y * w + x) + 1 < length ?g"
    using i by (simp add: computeGradients_length [OF bound])
  ultimately show ?thesis by (simp add: gradientAt_nth)
qed

text \<open>
  Claim C3. In the gradient field of a bake, every border cell (\<open>x = 0\<close>,
  \<open>x = width - 1\<close>, \<open>y = 0\<close> or \<open>y = height - 1\<close>) holds \<open>(0, 0)\<close>. This holds for every
  grid, in particular for \<open>width, height \<ge> 2\<close>, whose gradient array the 32-bit shift
  \<open>myIndex << 1\<close> can index: grids of at most \<open>2^30\<close> cells.
\<close>

theorem border_gradient_zero:
  fixes w h x y :: nat
  assumes bound: "w * h \<le> 2 ^ 30" and c: "x < w" "y < h"
    and border: "x = 0 \<or> x = w - 1 \<or> y = 0 \<or> y = h - 1"
  shows "gradientAt (fst (snd (recalculateGradients p rnd k w h))) w x y = (Some 0, Some 0)"
  unfolding recalculateGradients_parts
  using computeGradients_border [OF bound c border] .


theorem border_gradient_zero_witness:
  "gradientAt (fst (snd (recalculateGradients \<lparr>cp_m = 1, cp_n = 2, cp_l = 1 / 25\<rparr>
                           (\<lambda>i. randomOf 0) 0 5 5))) 5 4 2 = (Some 0, Some 0)"
  using border_gradient_zero [of 5 5 4 2 "\<lparr>cp_m = 1, cp_n = 2, cp_l = 1 / 25\<rparr>" "\<lambda>i. randomOf 0" 0]
  by simp













section \<open>Properties of the worker's schedule and state\<close>

lemma bakeNextGradients_resonant:
  assumes "gw_isResonantRound s"
  shows "\<exists>vib g. ws_posted (bakeNextGradients rnd s) =
                  ws_posted s @ [\<lparr>msg_vibrationIntensity = 3,
                                  msg_vibrationValues = Some vib, msg_gradients = Some g\<rparr>]"
    and "\<not> gw_isResonantRound (bakeNextGradients rnd s)"
    and "ws_intervals (bakeNextGradients rnd s) = ws_intervals s"
    and "ws_lastHandle (bakeNextGradients rnd s) = ws_lastHandle s"
  using assms
  by (simp_all add: bakeNextGradients_def postMessage_def Let_def
      MODERATE_RANDOM_VIBRATION_INTENSITY_def split: prod.splits)

lemma bakeNextGradients_rest:
  assumes "\<not> gw_isResonantRound s"
  shows "ws_posted (bakeNextGradients rnd s) =
           ws_posted s @ [\<lparr>msg_vibrationIntensity = 9 / 2,
                           msg_vibrationValues = None, msg_gradients = None\<rparr>]"
    and "gw_isResonantRound (bakeNextGradients rnd s)"
    and "ws_intervals (bakeNextGradients rnd s) = ws_intervals s"
    and "ws_lastHandle (bakeNextGradients rnd s) = ws_lastHandle s"
  using assms
  by (simp_all add: bakeNextGradients_def postMessage_def Let_def
      MODERATE_RANDOM_VIBRATION_INTENSITY_def AGGRESSIVE_RANDOM_VIBRATION_INTENSITY_def)

lemma bakeNextGradients_paired:
  "\<exists>m. ws_posted (bakeNextGradients rnd t) = ws_posted t @ [m] \<and>
       (msg_vibrationValues m = None \<longleftrightarrow> msg_gradients m = None)"
proof (cases "gw_isResonantRound t")
  case True
  from bakeNextGradients_resonant(1) [OF True, of rnd] show ?thesis by auto
next
  case False
  from bakeNextGradients_rest(1) [OF False, of rnd] show ?thesis by auto
qed

lemma receiveUpdateFromMainThread_schedule:
  fixes rnd message s
  defines "s1 \<equiv> receiveUpdateFromMainThread rnd message s"
  shows "\<exists>vib g. ws_posted s1 =
                  ws_posted s @ [\<lparr>msg_vibrationIntensity = 3,
                                  msg_vibrationValues = Some vib, msg_gradients = Some g\<rparr>]"
    and "\<not> gw_isResonantRound s1"
    and "\<exists>hnd. gw_bakingTimer s1 = Some hnd \<and> hnd \<in> set (ws_intervals s1)"
proof -
  define s5 where "s5 =
     (let s1 = s\<lparr>gw_width := rc_width message\<rparr>;
          s2 = s1\<lparr>gw_height := rc_height message\<rparr>;
          s3 = (case rc_chladniParams message of
                  None \<Rightarrow> s2
                | Some cp \<Rightarrow>
                    s2\<lparr>gw_currentParams := \<lparr>cp_m = cp_m cp, cp_n = cp_n cp, cp_l = cp_l cp\<rparr>\<rparr>);
          s4 = (case gw_bakingTimer s3 of
                  None \<Rightarrow> s3
                | Some hnd \<Rightarrow> if hnd \<noteq> 0 then clearInterval hnd s3 else s3)
      in s4\<lparr>gw_isResonantRound := True\<rparr>)"
  have res: "gw_isResonantRound s5" by (simp add: s5_def Let_def)
  have posted: "ws_posted s5 = ws_posted s"
    by (simp add: s5_def Let_def clearInterval_def split: option.splits)
  have s1: "s1 = (snd (setInterval (bakeNextGradients rnd s5)))
                   \<lparr>gw_bakingTimer := Some (fst (setInterval (bakeNextGradients rnd s5)))\<rparr>"
    by (simp add: s1_def receiveUpdateFromMainThread_def s5_def Let_def split: prod.splits)
  show "\<exists>vib g. ws_posted s1 =
                  ws_posted s @ [\<lparr>msg_vibrationIntensity = 3,
                                  msg_vibrationValues = Some vib, msg_gradients = Some g\<rparr>]"
    using bakeNextGradients_resonant(1) [OF res, of rnd] posted
    by (simp add: s1 setInterval_def Let_def)
  show "\<not> gw_isResonantRound s1"
    using bakeNextGradients_resonant(2) [OF res, of rnd]
    by (simp add: s1 setInterval_def Let_def)
  show "\<exists>hnd. gw_bakingTimer s1 = Some hnd \<and> hnd \<in> set (ws_intervals s1)"
    by (simp add: s1 setInterval_def Let_def)
qed

lemma intervalFires_armed:
  "hnd \<in> set (ws_intervals s) \<Longrightarrow> intervalFires rnd hnd s = bakeNextGradients rnd s"
  by (simp add: intervalFires_def)

text \<open>
  Claim C5. After the scheduled worker has processed a configure message, from any
  state: the message it emits while processing has both buffers and the intensity \<open>3\<close>
  (\<open>MODERATE\<close>); the emission of the next firing of the interval it armed has both
  buffers \<open>null\<close> and the intensity \<open>4.5\<close> (\<open>AGGRESSIVE\<close>); the emission of the firing
  after that has both buffers again. Every message \<open>bakeNextGradients\<close> emits has both
  buffers or neither. (The period of the interval is real time and outside the model:
  a firing is an event.)
\<close>

theorem alternation_after_configure:
  "\<exists>hnd vib1 g1 vib3 g3.
      gw_bakingTimer (receiveUpdateFromMainThread rnd message s) = Some hnd \<and>
      ws_posted (receiveUpdateFromMainThread rnd message s) =
        ws_posted s @
          [\<lparr>msg_vibrationIntensity = 3, msg_vibrationValues = Some vib1, msg_gradients = Some g1\<rparr>] \<and>
      ws_posted (intervalFires rnd hnd (receiveUpdateFromMainThread rnd message s)) =
        ws_posted s @
          [\<lparr>msg_vibrationIntensity = 3, msg_vibrationValues = Some vib1, msg_gradients = Some g1\<rparr>,
           \<lparr>msg_vibrationIntensity = 9 / 2, msg_vibrationValues = None, msg_gradients = None\<rparr>] \<and>
      ws_posted (intervalFires rnd hnd
                   (intervalFires rnd hnd (receiveUpdateFromMainThread rnd message s))) =
        ws_posted s @
          [\<lparr>msg_vibrationIntensity = 3, msg_vibrationValues = Some vib1, msg_gradients = Some g1\<rparr>,
           \<lparr>msg_vibrationIntensity = 9 / 2, msg_vibrationValues = None, msg_gradients = None\<rparr>,
           \<lparr>msg_vibrationIntensity = 3, msg_vibrationValues = Some vib3, msg_gradients = Some g3\<rparr>] \<and>
      (\<forall>t. \<exists>m. ws_posted (bakeNextGradients rnd t) = ws_posted t @ [m] \<and>
                (msg_vibrationValues m = None \<longleftrightarrow> msg_gradients m = None))"
proof -
  let ?s1 = "receiveUpdateFromMainThread rnd message s"
  from receiveUpdateFromMainThread_schedule [of rnd message s]
  obtain vib1 g1 hnd where
    p1: "ws_posted ?s1 = ws_posted s @ [\<lparr>msg_vibrationIntensity = 3,
                                  msg_vibrationValues = Some vib1, msg_gradients = Some g1\<rparr>]"
    and r1: "\<not> gw_isResonantRound ?s1"
    and t1: "gw_bakingTimer ?s1 = Some hnd" "hnd \<in> set (ws_intervals ?s1)"
    by blast
  let ?s2 = "intervalFires rnd hnd ?s1"
  have s2: "?s2 = bakeNextGradients rnd ?s1" using t1(2) by (rule intervalFires_armed)
  have p2: "ws_posted ?s2 = ws_posted ?s1 @ [\<lparr>msg_vibrationIntensity = 9 / 2,
                           msg_vibrationValues = None, msg_gradients = None\<rparr>]"
    and r2: "gw_isResonantRound ?s2"
    and i2: "hnd \<in> set (ws_intervals ?s2)"
    using bakeNextGradients_rest [OF r1, of rnd] t1(2) by (simp_all add: s2)
  let ?s3 = "intervalFires rnd hnd ?s2"
  have s3: "?s3 = bakeNextGradients rnd ?s2" using i2 by (rule intervalFires_armed)
  from bakeNextGradients_resonant(1) [OF r2, of rnd]
  obtain vib3 g3 where
    p3: "ws_posted ?s3 = ws_posted ?s2 @ [\<lparr>msg_vibrationIntensity = 3,
                                  msg_vibrationValues = Some vib3, msg_gradients = Some g3\<rparr>]"
    unfolding s3 by blast
  have "\<forall>t. \<exists>m. ws_posted (bakeNextGradients rnd t) = ws_posted t @ [m] \<and>
                (msg_vibrationValues m = None \<longleftrightarrow> msg_gradients m = None)"
    using bakeNextGradients_paired by blast
  with t1(1) p1 p2 p3 show ?thesis by (intro exI [of _ hnd] exI [of _ vib1] exI [of _ g1]
        exI [of _ vib3] exI [of _ g3]) simp
qed












lemma bakeNextGradients_currentParams:
  "gw_currentParams (bakeNextGradients rnd s) = gw_currentParams s"
  by (simp add: bakeNextGradients_def postMessage_def Let_def split: prod.splits)

lemma bakeNextGradients_frequency_table:
  assumes "bakeNextGradients_frequency rnd t = Some t'"
  shows "fw_CHLADNI_PARAMS t' =
           (if fw_isResonantRound t
            then (fw_CHLADNI_PARAMS t)
                   [fw_gradientParametersIndex t :=
                      (fw_CHLADNI_PARAMS t ! fw_gradientParametersIndex t)
                        \<lparr>cp_l := fw_currentFrequency t\<rparr>]
            else fw_CHLADNI_PARAMS t)"
  using assms
  by (auto simp: bakeNextGradients_frequency_def postMessage_def Let_def
      split: prod.splits if_splits)

lemma bakeNextGradients_frequency_returns:
  "\<not> fw_isResonantRound t \<or> fw_gradientParametersIndex t < length (fw_CHLADNI_PARAMS t) \<Longrightarrow>
   \<exists>t'. bakeNextGradients_frequency rnd t = Some t'"
  by (auto simp: bakeNextGradients_frequency_def Let_def split: prod.splits)

lemma nth_list_update_in_range:
  "j < length xs \<Longrightarrow> xs[i := x] ! j = (if i = j then x else xs ! j)"
  by (cases "i = j") simp_all

text \<open>
  Claim C7 (as amended). In the worker of index.js a bake leaves the parameter record
  \<open>currentParams\<close> unchanged. In the frequency variant a resonant bake overwrites the
  field \<open>l\<close> of the shared record \<open>CHLADNI_PARAMS[gradientParametersIndex]\<close> with the
  current frequency before it bakes with that record; the fields \<open>m\<close> and \<open>n\<close> of every
  record and the field \<open>l\<close> of every other record are unchanged, and a rest round
  changes no record.
\<close>

theorem bake_parameter_effect:
  "gw_currentParams (bakeNextGradients rnd s) = gw_currentParams s \<and>
   (\<forall>t'. bakeNextGradients_frequency rnd t = Some t' \<longrightarrow>
      length (fw_CHLADNI_PARAMS t') = length (fw_CHLADNI_PARAMS t) \<and>
      (\<forall>j < length (fw_CHLADNI_PARAMS t).
         cp_m (fw_CHLADNI_PARAMS t' ! j) = cp_m (fw_CHLADNI_PARAMS t ! j) \<and>
         cp_n (fw_CHLADNI_PARAMS t' ! j) = cp_n (fw_CHLADNI_PARAMS t ! j) \<and>
         cp_l (fw_CHLADNI_PARAMS t' ! j) =
           (if fw_isResonantRound t \<and> j = fw_gradientParametersIndex t
            then fw_currentFrequency t
            else cp_l (fw_CHLADNI_PARAMS t ! j))))"
proof (intro conjI allI impI)
  show "gw_currentParams (bakeNextGradients rnd s) = gw_currentParams s"
    by (rule bakeNextGradients_currentParams)
next
  fix t' assume b: "bakeNextGradients_frequency rnd t = Some t'"
  note T = bakeNextGradients_frequency_table [OF b]
  show "length (fw_CHLADNI_PARAMS t') = length (fw_CHLADNI_PARAMS t)"
    by (simp add: T)
  fix j assume j: "j < length (fw_CHLADNI_PARAMS t)"
  show "cp_m (fw_CHLADNI_PARAMS t' ! j) = cp_m (fw_CHLADNI_PARAMS t ! j)"
    using j by (auto simp: T nth_list_update_in_range)
  show "cp_n (fw_CHLADNI_PARAMS t' ! j) = cp_n (fw_CHLADNI_PARAMS t ! j)"
    using j by (auto simp: T nth_list_update_in_range)
  show "cp_l (fw_CHLADNI_PARAMS t' ! j) =
           (if fw_isResonantRound t \<and> j = fw_gradientParametersIndex t
            then fw_currentFrequency t
            else cp_l (fw_CHLADNI_PARAMS t ! j))"
    using j by (auto simp: T nth_list_update_in_range)
qed

theorem bake_parameter_effect_witness:
  "gw_currentParams (bakeNextGradients (\<lambda>i. randomOf 0) (newGradientWorker 0)) =
     \<lparr>cp_m = 1, cp_n = 2, cp_l = 4 / 100\<rparr> \<and>
   (\<exists>t'. bakeNextGradients_frequency (\<lambda>i. randomOf 0)
            ((newFrequencyWorker 0)\<lparr>fw_currentFrequency := 1 / 50\<rparr>) = Some t' \<and>
         cp_m (fw_CHLADNI_PARAMS t' ! 0) = 1 \<and>
         cp_n (fw_CHLADNI_PARAMS t' ! 0) = 2 \<and>
         cp_l (fw_CHLADNI_PARAMS t' ! 0) = 1 / 50 \<and>
         cp_l (fw_CHLADNI_PARAMS t' ! 1) = L3)"
proof -
  let ?t = "(newFrequencyWorker 0)\<lparr>fw_currentFrequency := 1 / 50\<rparr>"
  note T = bake_parameter_effect [of "\<lambda>i. randomOf 0" "newGradientWorker 0" ?t]
  obtain t' where t': "bakeNextGradients_frequency (\<lambda>i. randomOf 0) ?t = Some t'"
    using bakeNextGradients_frequency_returns [of ?t "\<lambda>i. randomOf 0"]
    by (auto simp: newFrequencyWorker_def CHLADNI_PARAMS_def)
  from T [THEN conjunct2, rule_format, OF t', THEN conjunct2, rule_format, of 0]
       T [THEN conjunct2, rule_format, OF t', THEN conjunct2, rule_format, of 1]
  have "cp_m (fw_CHLADNI_PARAMS t' ! 0) = 1 \<and>
         cp_n (fw_CHLADNI_PARAMS t' ! 0) = 2 \<and>
         cp_l (fw_CHLADNI_PARAMS t' ! 0) = 1 / 50 \<and>
         cp_l (fw_CHLADNI_PARAMS t' ! 1) = L3"
    by (simp add: newFrequencyWorker_def CHLADNI_PARAMS_def)
  with t' T [THEN conjunct1] show ?thesis
    by (simp add: newGradientWorker_def)
qed

text \<open>
  Claim C7 as stated fails in the frequency variant. From the state the constructor
  leaves, the first configure message with the frequency \<open>0.02\<close> triggers a bake that
  changes the field \<open>l\<close> of the record \<open>CHLADNI_PARAMS[0]\<close> from \<open>0.04\<close> to \<open>0.02\<close>.
\<close>

theorem shared_parameter_record_mutated_counterexample:
  "cp_l (fw_CHLADNI_PARAMS (newFrequencyWorker 0) ! 0) = 4 / 100 \<and>
   (\<exists>t'. receiveUpdateFromMainThread_frequency (\<lambda>i. randomOf 0)
            \<lparr>rc_width = Some 3, rc_height = Some 3, rc_chladniParams = None,
             rc_frequency = Some (1 / 50)\<rparr>
            (newFrequencyWorker 0) = Some t' \<and>
         cp_l (fw_CHLADNI_PARAMS t' ! 0) = 1 / 50)"
proof -
  let ?m = "\<lparr>rc_width = Some 3, rc_height = Some 3, rc_chladniParams = None,
             rc_frequency = Some (1 / 50)\<rparr>"
  let ?s5 = "(newFrequencyWorker 0)
               \<lparr>fw_width := Some 3, fw_height := Some 3, fw_currentFrequency := 1 / 50,
                fw_isResonantRound := True\<rparr>"
  obtain t6 where t6: "bakeNextGradients_frequency (\<lambda>i. randomOf 0) ?s5 = Some t6"
    using bakeNextGradients_frequency_returns [of ?s5 "\<lambda>i. randomOf 0"]
    by (auto simp: newFrequencyWorker_def CHLADNI_PARAMS_def)
  have tab: "cp_l (fw_CHLADNI_PARAMS t6 ! 0) = 1 / 50"
    using bakeNextGradients_frequency_table [OF t6]
    by (simp add: newFrequencyWorker_def CHLADNI_PARAMS_def)
  have "receiveUpdateFromMainThread_frequency (\<lambda>i. randomOf 0) ?m (newFrequencyWorker 0) =
          Some ((snd (setInterval t6))\<lparr>fw_bakingTimer := Some (fst (setInterval t6))\<rparr>)"
    using t6
    by (simp add: receiveUpdateFromMainThread_frequency_def newFrequencyWorker_def Let_def
        split: prod.splits)
  moreover have "cp_l (fw_CHLADNI_PARAMS
        ((snd (setInterval t6))\<lparr>fw_bakingTimer := Some (fst (setInterval t6))\<rparr>) ! 0) = 1 / 50"
    using tab by (simp add: setInterval_def Let_def)
  moreover have "cp_l (fw_CHLADNI_PARAMS (newFrequencyWorker 0) ! 0) = 4 / 100"
    by (simp add: newFrequencyWorker_def CHLADNI_PARAMS_def L1_def)
  ultimately show ?thesis by blast
qed


end
